theory Spec2Isabelle
  imports Complex_Main "HOL-Library.Word" "HOL-Library.AList" "HOL-Library.Multiset"
begin

unbundle bit_operations_syntax

section \<open>Conventions of the embedding\<close>

text \<open>
  The development embeds the three TypeScript modules of the converter
  (\<^verbatim>\<open>lib/fbx.ts\<close>, \<^verbatim>\<open>lib/retarget.ts\<close> and the VMD writer) as HOL functions.

  \<^item> A JavaScript \<^verbatim>\<open>number\<close> is a value of the type \<open>number\<close> below, a real or one
    of NaN, \<open>+\<infinity>\<close>, \<open>\<minus>\<infinity>\<close>, wherever the program can meet a value that is not finite
    and treats it in a way of its own: the key values that the rotation assembler reads
    from the file, and the components that the bone-frame writer tests with
    \<^verbatim>\<open>isFinite\<close>.  Finite doubles are exact reals: rounding and overflow are outside
    the model, and the two zeros are one.  Key times, and the quaternions and positions
    of the retargeter and of the keyframe builder, are reals.
  \<^item> A JavaScript string is a \<^typ>\<open>string\<close> holding the UTF-8 bytes of the text; two
    well-formed strings are equal in the program exactly when their byte lists are.
  \<^item> An array read \<^verbatim>\<open>xs[i]\<close> is \<open>nth_opt xs i\<close>, with \<open>None\<close> for the
    \<^verbatim>\<open>undefined\<close> that JavaScript yields out of range; a property access on
    \<^verbatim>\<open>undefined\<close> is the error \<open>TypeError\<close> and a \<^verbatim>\<open>DataView\<close> access outside
    the buffer is the error \<open>RangeError\<close>.
  \<^item> A table that the program keeps as a plain object is read with \<open>objectGet\<close>, which
    also finds the members that every object inherits from \<^verbatim>\<open>Object.prototype\<close>.
  \<^item> \<^verbatim>\<open>Math.round\<close> rounds halves upwards, which is \<^const>\<open>round\<close> on the reals.
\<close>

datatype error = TypeError | RangeError

definition bindE :: "error + 'a \<Rightarrow> ('a \<Rightarrow> error + 'b) \<Rightarrow> error + 'b" where
  "bindE m f = (case m of Inl e \<Rightarrow> Inl e | Inr v \<Rightarrow> f v)"

text \<open>\<^verbatim>\<open>Array.prototype.map\<close> with a callback that may throw: the first exception ends it.\<close>

fun mapE :: "('a \<Rightarrow> error + 'b) \<Rightarrow> 'a list \<Rightarrow> error + 'b list" where
  "mapE f [] = Inr []"
| "mapE f (x # xs) = bindE (f x) (\<lambda>y. bindE (mapE f xs) (\<lambda>ys. Inr (y # ys)))"

section \<open>Quaternions and vectors\<close>

text \<open>
  \<^verbatim>\<open>Quat\<close> and \<^verbatim>\<open>Vec3\<close> are classes of the rendering engine package, which the
  converter imports; only their constructor fields \<open>x, y, z, w\<close> are visible in the
  sources under study.
\<close>

datatype quat = Quat (qx: real) (qy: real) (qz: real) (qw: real)

datatype vec3 = Vec3 (vx: real) (vy: real) (vz: real)

text \<open>
  Modelled from the spec: \<^verbatim>\<open>Quat.multiply\<close> of the engine package, which is not part
  of the repository.  The spec composes the retarget as \<open>q_l \<cdot> q_source \<cdot> q_r\<close> with the
  noncommutative quaternion product; \<open>multiply a b\<close> is \<^verbatim>\<open>a.multiply(b)\<close>, the Hamilton
  product \<open>a \<cdot> b\<close>.
\<close>

definition multiply :: "quat \<Rightarrow> quat \<Rightarrow> quat" where
  "multiply a b = Quat
     (qw a * qx b + qx a * qw b + qy a * qz b - qz a * qy b)
     (qw a * qy b - qx a * qz b + qy a * qw b + qz a * qx b)
     (qw a * qz b + qx a * qy b - qy a * qx b + qz a * qw b)
     (qw a * qw b - qx a * qx b - qy a * qy b - qz a * qz b)"

text \<open>
  Modelled from the spec: \<^verbatim>\<open>Quat.conjugate\<close> of the engine package; the spec writes
  \<open>q_a\<inverse>\<close> for the conjugate of the unit rest quaternion.  (\<^verbatim>\<open>clone\<close> copies, which
  is the identity function on values.)
\<close>

definition conjugate :: "quat \<Rightarrow> quat" where
  "conjugate q = Quat (- qx q) (- qy q) (- qz q) (qw q)"

text \<open>
  Modelled from the spec: \<^verbatim>\<open>Quat.fromAxisAngle\<close> of the engine package, for a unit
  axis; the spec gives an axis rotation as \<open>(sin(\<theta>/2) \<cdot> axis, cos(\<theta>/2))\<close>.
\<close>

definition fromAxisAngle :: "vec3 \<Rightarrow> real \<Rightarrow> quat" where
  "fromAxisAngle axis angle =
     (let s = sin (angle / 2)
      in Quat (vx axis * s) (vy axis * s) (vz axis * s) (cos (angle / 2)))"

text \<open>
  Modelled from the spec: \<^verbatim>\<open>Quat.identity\<close> of the engine package, the identity
  rotation \<open>(0, 0, 0, 1)\<close>.
\<close>

definition identity :: quat where
  "identity = Quat 0 0 0 1"

definition nth_opt :: "'a list \<Rightarrow> nat \<Rightarrow> 'a option" where
  "nth_opt xs i = (if i < length xs then Some (xs ! i) else None)"

section \<open>Numbers\<close>

text \<open>
  A JavaScript number is a double.  The model keeps the finite doubles as reals (their
  rounding and their overflow are not modelled, and the two zeros are one, read as \<open>+0\<close>)
  and keeps the three values that are not finite, with the arithmetic that ECMAScript
  gives them.
\<close>

datatype number = Finite real | NaN | PosInfinity | NegInfinity

text \<open>The global functions \<^verbatim>\<open>isFinite\<close> and \<^verbatim>\<open>isNaN\<close>, on numbers.\<close>

definition isFinite :: "number \<Rightarrow> bool" where
  "isFinite v = (case v of Finite _ \<Rightarrow> True | _ \<Rightarrow> False)"

definition isNaN :: "number \<Rightarrow> bool" where
  "isNaN v = (case v of NaN \<Rightarrow> True | _ \<Rightarrow> False)"

text \<open>
  The operators \<^verbatim>\<open>+ - * /\<close>, \<^verbatim>\<open>Math.abs\<close> and the comparisons \<^verbatim>\<open><\<close>, \<^verbatim>\<open><=\<close>
  (\<^verbatim>\<open>a > b\<close> is \<open>b < a\<close> and \<^verbatim>\<open>a >= b\<close> is \<open>b \<le> a\<close>; a comparison with NaN is false, so
  \<open>a \<le> b\<close> is not the negation of \<open>b < a\<close>).  A finite number divided by zero is an
  infinity of the sign of the dividend, and \<open>0 / 0\<close> is NaN.  The type class of \<open>/\<close>
  also asks for \<open>inverse\<close>, which is \<open>1 / a\<close>.
\<close>

instantiation number :: "{plus, minus, uminus, times, inverse, abs, ord}"
begin

fun plus_number :: "number \<Rightarrow> number \<Rightarrow> number" where
  "Finite a + Finite b = Finite (a + b)"
| "NaN + _ = NaN"
| "_ + NaN = NaN"
| "PosInfinity + NegInfinity = NaN"
| "NegInfinity + PosInfinity = NaN"
| "PosInfinity + _ = PosInfinity"
| "_ + PosInfinity = PosInfinity"
| "NegInfinity + _ = NegInfinity"
| "_ + NegInfinity = NegInfinity"

fun uminus_number :: "number \<Rightarrow> number" where
  "- Finite a = Finite (- a)"
| "- NaN = NaN"
| "- PosInfinity = NegInfinity"
| "- NegInfinity = PosInfinity"

definition minus_number :: "number \<Rightarrow> number \<Rightarrow> number" where
  "a - b = a + - (b :: number)"

fun times_number :: "number \<Rightarrow> number \<Rightarrow> number" where
  "Finite a * Finite b = Finite (a * b)"
| "NaN * _ = NaN"
| "_ * NaN = NaN"
| "PosInfinity * Finite b = (if b = 0 then NaN else if 0 < b then PosInfinity else NegInfinity)"
| "NegInfinity * Finite b = (if b = 0 then NaN else if 0 < b then NegInfinity else PosInfinity)"
| "Finite a * PosInfinity = (if a = 0 then NaN else if 0 < a then PosInfinity else NegInfinity)"
| "Finite a * NegInfinity = (if a = 0 then NaN else if 0 < a then NegInfinity else PosInfinity)"
| "PosInfinity * PosInfinity = PosInfinity"
| "PosInfinity * NegInfinity = NegInfinity"
| "NegInfinity * PosInfinity = NegInfinity"
| "NegInfinity * NegInfinity = PosInfinity"

fun divide_number :: "number \<Rightarrow> number \<Rightarrow> number" where
  "Finite a div Finite b =
     (if b \<noteq> 0 then Finite (a / b)
      else if a = 0 then NaN else if 0 < a then PosInfinity else NegInfinity)"
| "NaN div _ = NaN"
| "_ div NaN = NaN"
| "Finite a div _ = Finite 0"
| "PosInfinity div Finite b = (if 0 \<le> b then PosInfinity else NegInfinity)"
| "NegInfinity div Finite b = (if 0 \<le> b then NegInfinity else PosInfinity)"
| "_ div _ = NaN"

definition inverse_number :: "number \<Rightarrow> number" where
  "inverse a = Finite 1 div (a :: number)"

fun abs_number :: "number \<Rightarrow> number" where
  "\<bar>Finite a\<bar> = Finite \<bar>a\<bar>"
| "\<bar>NaN\<bar> = NaN"
| "\<bar>_ :: number\<bar> = PosInfinity"

fun less_eq_number :: "number \<Rightarrow> number \<Rightarrow> bool" where
  "Finite a \<le> Finite b \<longleftrightarrow> a \<le> b"
| "NaN \<le> _ \<longleftrightarrow> False"
| "_ \<le> NaN \<longleftrightarrow> False"
| "NegInfinity \<le> _ \<longleftrightarrow> True"
| "_ \<le> PosInfinity \<longleftrightarrow> True"
| "_ \<le> (_ :: number) \<longleftrightarrow> False"

fun less_number :: "number \<Rightarrow> number \<Rightarrow> bool" where
  "Finite a < Finite b \<longleftrightarrow> a < b"
| "NaN < _ \<longleftrightarrow> False"
| "_ < NaN \<longleftrightarrow> False"
| "_ < NegInfinity \<longleftrightarrow> False"
| "PosInfinity < _ \<longleftrightarrow> False"
| "_ < (_ :: number) \<longleftrightarrow> True"

instance ..

end

subsection \<open>The functions of \<^verbatim>\<open>Math\<close>\<close>

definition Math_PI :: number where
  "Math_PI = Finite pi"

fun Math_sin :: "number \<Rightarrow> number" where
  "Math_sin (Finite a) = Finite (sin a)"
| "Math_sin _ = NaN"

fun Math_cos :: "number \<Rightarrow> number" where
  "Math_cos (Finite a) = Finite (cos a)"
| "Math_cos _ = NaN"

fun Math_acos :: "number \<Rightarrow> number" where
  "Math_acos (Finite a) = (if - 1 \<le> a \<and> a \<le> 1 then Finite (arccos a) else NaN)"
| "Math_acos _ = NaN"

fun Math_asin :: "number \<Rightarrow> number" where
  "Math_asin (Finite a) = (if - 1 \<le> a \<and> a \<le> 1 then Finite (arcsin a) else NaN)"
| "Math_asin _ = NaN"

fun Math_sqrt :: "number \<Rightarrow> number" where
  "Math_sqrt (Finite a) = (if 0 \<le> a then Finite (sqrt a) else NaN)"
| "Math_sqrt PosInfinity = PosInfinity"
| "Math_sqrt _ = NaN"

fun Math_sign :: "number \<Rightarrow> number" where
  "Math_sign (Finite a) = Finite (sgn a)"
| "Math_sign PosInfinity = Finite 1"
| "Math_sign NegInfinity = Finite (- 1)"
| "Math_sign NaN = NaN"

fun Math_ceil :: "number \<Rightarrow> number" where
  "Math_ceil (Finite a) = Finite (of_int \<lceil>a\<rceil>)"
| "Math_ceil v = v"

text \<open>\<^verbatim>\<open>Math.max\<close> of a list of arguments: NaN when an argument is NaN, \<open>\<minus>\<infinity>\<close> without arguments.\<close>

definition Math_max :: "number list \<Rightarrow> number" where
  "Math_max vs =
     foldl (\<lambda>m v. if isNaN m \<or> isNaN v then NaN else if m < v then v else m) NegInfinity vs"

text \<open>\<^verbatim>\<open>Math.atan2\<close>, first on the reals (a zero counts as \<open>+0\<close>), then on all numbers.\<close>

definition atan2 :: "real \<Rightarrow> real \<Rightarrow> real" where
  "atan2 y x =
     (if x > 0 then arctan (y / x)
      else if x < 0 then (if y \<ge> 0 then arctan (y / x) + pi else arctan (y / x) - pi)
      else if y > 0 then pi / 2
      else if y < 0 then - (pi / 2)
      else 0)"

fun Math_atan2 :: "number \<Rightarrow> number \<Rightarrow> number" where
  "Math_atan2 (Finite y) (Finite x) = Finite (atan2 y x)"
| "Math_atan2 NaN _ = NaN"
| "Math_atan2 _ NaN = NaN"
| "Math_atan2 (Finite y) PosInfinity = Finite 0"
| "Math_atan2 (Finite y) NegInfinity = (if 0 \<le> y then Finite pi else Finite (- pi))"
| "Math_atan2 PosInfinity (Finite x) = Finite (pi / 2)"
| "Math_atan2 NegInfinity (Finite x) = Finite (- (pi / 2))"
| "Math_atan2 PosInfinity PosInfinity = Finite (pi / 4)"
| "Math_atan2 PosInfinity NegInfinity = Finite (3 * pi / 4)"
| "Math_atan2 NegInfinity PosInfinity = Finite (- (pi / 4))"
| "Math_atan2 NegInfinity NegInfinity = Finite (- (3 * pi / 4))"

subsection \<open>Quaternions and vectors of numbers\<close>

datatype nquat = NQuat (nqx: number) (nqy: number) (nqz: number) (nqw: number)

datatype nvec3 = NVec3 (nvx: number) (nvy: number) (nvz: number)

section \<open>The retargeter (\<^verbatim>\<open>lib/retarget.ts\<close>)\<close>

subsection \<open>Fixed tables\<close>

definition BONE_MAP :: "(string \<times> string) list" where
  "BONE_MAP = [
    (''Hips'', [CHR 0xE3, CHR 0x82, CHR 0xBB, CHR 0xE3, CHR 0x83, CHR 0xB3, CHR 0xE3, CHR 0x82, CHR 0xBF, CHR 0xE3, CHR 0x83, CHR 0xBC]),
    (''Spine'', [CHR 0xE8, CHR 0x85, CHR 0xB0]),
    (''Spine1'', [CHR 0xE4, CHR 0xB8, CHR 0x8A, CHR 0xE5, CHR 0x8D, CHR 0x8A, CHR 0xE8, CHR 0xBA, CHR 0xAB]),
    (''Spine2'', [CHR 0xE4, CHR 0xB8, CHR 0x8A, CHR 0xE5, CHR 0x8D, CHR 0x8A, CHR 0xE8, CHR 0xBA, CHR 0xAB, CHR 0x32]),
    (''Neck'', [CHR 0xE9, CHR 0xA6, CHR 0x96]),
    (''Head'', [CHR 0xE9, CHR 0xA0, CHR 0xAD]),
    (''RightShoulder'', [CHR 0xE5, CHR 0x8F, CHR 0xB3, CHR 0xE8, CHR 0x82, CHR 0xA9]),
    (''RightArm'', [CHR 0xE5, CHR 0x8F, CHR 0xB3, CHR 0xE8, CHR 0x85, CHR 0x95]),
    (''RightForeArm'', [CHR 0xE5, CHR 0x8F, CHR 0xB3, CHR 0xE3, CHR 0x81, CHR 0xB2, CHR 0xE3, CHR 0x81, CHR 0x98]),
    (''RightHand'', [CHR 0xE5, CHR 0x8F, CHR 0xB3, CHR 0xE6, CHR 0x89, CHR 0x8B, CHR 0xE9, CHR 0xA6, CHR 0x96]),
    (''LeftShoulder'', [CHR 0xE5, CHR 0xB7, CHR 0xA6, CHR 0xE8, CHR 0x82, CHR 0xA9]),
    (''LeftArm'', [CHR 0xE5, CHR 0xB7, CHR 0xA6, CHR 0xE8, CHR 0x85, CHR 0x95]),
    (''LeftForeArm'', [CHR 0xE5, CHR 0xB7, CHR 0xA6, CHR 0xE3, CHR 0x81, CHR 0xB2, CHR 0xE3, CHR 0x81, CHR 0x98]),
    (''LeftHand'', [CHR 0xE5, CHR 0xB7, CHR 0xA6, CHR 0xE6, CHR 0x89, CHR 0x8B, CHR 0xE9, CHR 0xA6, CHR 0x96]),
    (''RightUpLeg'', [CHR 0xE5, CHR 0x8F, CHR 0xB3, CHR 0xE8, CHR 0xB6, CHR 0xB3]),
    (''RightLeg'', [CHR 0xE5, CHR 0x8F, CHR 0xB3, CHR 0xE3, CHR 0x81, CHR 0xB2, CHR 0xE3, CHR 0x81, CHR 0x96]),
    (''RightFoot'', [CHR 0xE5, CHR 0x8F, CHR 0xB3, CHR 0xE8, CHR 0xB6, CHR 0xB3, CHR 0xE9, CHR 0xA6, CHR 0x96]),
    (''RightToeBase'', [CHR 0xE5, CHR 0x8F, CHR 0xB3, CHR 0xE8, CHR 0xB6, CHR 0xB3, CHR 0xE5, CHR 0x85, CHR 0x88, CHR 0x45, CHR 0x58]),
    (''LeftUpLeg'', [CHR 0xE5, CHR 0xB7, CHR 0xA6, CHR 0xE8, CHR 0xB6, CHR 0xB3]),
    (''LeftLeg'', [CHR 0xE5, CHR 0xB7, CHR 0xA6, CHR 0xE3, CHR 0x81, CHR 0xB2, CHR 0xE3, CHR 0x81, CHR 0x96]),
    (''LeftFoot'', [CHR 0xE5, CHR 0xB7, CHR 0xA6, CHR 0xE8, CHR 0xB6, CHR 0xB3, CHR 0xE9, CHR 0xA6, CHR 0x96]),
    (''LeftToeBase'', [CHR 0xE5, CHR 0xB7, CHR 0xA6, CHR 0xE8, CHR 0xB6, CHR 0xB3, CHR 0xE5, CHR 0x85, CHR 0x88, CHR 0x45, CHR 0x58]),
    (''RightHandThumb1'', [CHR 0xE5, CHR 0x8F, CHR 0xB3, CHR 0xE8, CHR 0xA6, CHR 0xAA, CHR 0xE6, CHR 0x8C, CHR 0x87, CHR 0xEF, CHR 0xBC, CHR 0x91]),
    (''RightHandThumb2'', [CHR 0xE5, CHR 0x8F, CHR 0xB3, CHR 0xE8, CHR 0xA6, CHR 0xAA, CHR 0xE6, CHR 0x8C, CHR 0x87, CHR 0xEF, CHR 0xBC, CHR 0x92]),
    (''RightHandThumb3'', [CHR 0xE5, CHR 0x8F, CHR 0xB3, CHR 0xE8, CHR 0xA6, CHR 0xAA, CHR 0xE6, CHR 0x8C, CHR 0x87, CHR 0xEF, CHR 0xBC, CHR 0x93]),
    (''RightHandIndex1'', [CHR 0xE5, CHR 0x8F, CHR 0xB3, CHR 0xE4, CHR 0xBA, CHR 0xBA, CHR 0xE6, CHR 0x8C, CHR 0x87, CHR 0xEF, CHR 0xBC, CHR 0x91]),
    (''RightHandIndex2'', [CHR 0xE5, CHR 0x8F, CHR 0xB3, CHR 0xE4, CHR 0xBA, CHR 0xBA, CHR 0xE6, CHR 0x8C, CHR 0x87, CHR 0xEF, CHR 0xBC, CHR 0x92]),
    (''RightHandIndex3'', [CHR 0xE5, CHR 0x8F, CHR 0xB3, CHR 0xE4, CHR 0xBA, CHR 0xBA, CHR 0xE6, CHR 0x8C, CHR 0x87, CHR 0xEF, CHR 0xBC, CHR 0x93]),
    (''RightHandMiddle1'', [CHR 0xE5, CHR 0x8F, CHR 0xB3, CHR 0xE4, CHR 0xB8, CHR 0xAD, CHR 0xE6, CHR 0x8C, CHR 0x87, CHR 0xEF, CHR 0xBC, CHR 0x91]),
    (''RightHandMiddle2'', [CHR 0xE5, CHR 0x8F, CHR 0xB3, CHR 0xE4, CHR 0xB8, CHR 0xAD, CHR 0xE6, CHR 0x8C, CHR 0x87, CHR 0xEF, CHR 0xBC, CHR 0x92]),
    (''RightHandMiddle3'', [CHR 0xE5, CHR 0x8F, CHR 0xB3, CHR 0xE4, CHR 0xB8, CHR 0xAD, CHR 0xE6, CHR 0x8C, CHR 0x87, CHR 0xEF, CHR 0xBC, CHR 0x93]),
    (''RightHandRing1'', [CHR 0xE5, CHR 0x8F, CHR 0xB3, CHR 0xE8, CHR 0x96, CHR 0xAC, CHR 0xE6, CHR 0x8C, CHR 0x87, CHR 0xEF, CHR 0xBC, CHR 0x91]),
    (''RightHandRing2'', [CHR 0xE5, CHR 0x8F, CHR 0xB3, CHR 0xE8, CHR 0x96, CHR 0xAC, CHR 0xE6, CHR 0x8C, CHR 0x87, CHR 0xEF, CHR 0xBC, CHR 0x92]),
    (''RightHandRing3'', [CHR 0xE5, CHR 0x8F, CHR 0xB3, CHR 0xE8, CHR 0x96, CHR 0xAC, CHR 0xE6, CHR 0x8C, CHR 0x87, CHR 0xEF, CHR 0xBC, CHR 0x93]),
    (''RightHandPinky1'', [CHR 0xE5, CHR 0x8F, CHR 0xB3, CHR 0xE5, CHR 0xB0, CHR 0x8F, CHR 0xE6, CHR 0x8C, CHR 0x87, CHR 0xEF, CHR 0xBC, CHR 0x91]),
    (''RightHandPinky2'', [CHR 0xE5, CHR 0x8F, CHR 0xB3, CHR 0xE5, CHR 0xB0, CHR 0x8F, CHR 0xE6, CHR 0x8C, CHR 0x87, CHR 0xEF, CHR 0xBC, CHR 0x92]),
    (''RightHandPinky3'', [CHR 0xE5, CHR 0x8F, CHR 0xB3, CHR 0xE5, CHR 0xB0, CHR 0x8F, CHR 0xE6, CHR 0x8C, CHR 0x87, CHR 0xEF, CHR 0xBC, CHR 0x93]),
    (''LeftHandThumb1'', [CHR 0xE5, CHR 0xB7, CHR 0xA6, CHR 0xE8, CHR 0xA6, CHR 0xAA, CHR 0xE6, CHR 0x8C, CHR 0x87, CHR 0xEF, CHR 0xBC, CHR 0x91]),
    (''LeftHandThumb2'', [CHR 0xE5, CHR 0xB7, CHR 0xA6, CHR 0xE8, CHR 0xA6, CHR 0xAA, CHR 0xE6, CHR 0x8C, CHR 0x87, CHR 0xEF, CHR 0xBC, CHR 0x92]),
    (''LeftHandThumb3'', [CHR 0xE5, CHR 0xB7, CHR 0xA6, CHR 0xE8, CHR 0xA6, CHR 0xAA, CHR 0xE6, CHR 0x8C, CHR 0x87, CHR 0xEF, CHR 0xBC, CHR 0x93]),
    (''LeftHandIndex1'', [CHR 0xE5, CHR 0xB7, CHR 0xA6, CHR 0xE4, CHR 0xBA, CHR 0xBA, CHR 0xE6, CHR 0x8C, CHR 0x87, CHR 0xEF, CHR 0xBC, CHR 0x91]),
    (''LeftHandIndex2'', [CHR 0xE5, CHR 0xB7, CHR 0xA6, CHR 0xE4, CHR 0xBA, CHR 0xBA, CHR 0xE6, CHR 0x8C, CHR 0x87, CHR 0xEF, CHR 0xBC, CHR 0x92]),
    (''LeftHandIndex3'', [CHR 0xE5, CHR 0xB7, CHR 0xA6, CHR 0xE4, CHR 0xBA, CHR 0xBA, CHR 0xE6, CHR 0x8C, CHR 0x87, CHR 0xEF, CHR 0xBC, CHR 0x93]),
    (''LeftHandMiddle1'', [CHR 0xE5, CHR 0xB7, CHR 0xA6, CHR 0xE4, CHR 0xB8, CHR 0xAD, CHR 0xE6, CHR 0x8C, CHR 0x87, CHR 0xEF, CHR 0xBC, CHR 0x91]),
    (''LeftHandMiddle2'', [CHR 0xE5, CHR 0xB7, CHR 0xA6, CHR 0xE4, CHR 0xB8, CHR 0xAD, CHR 0xE6, CHR 0x8C, CHR 0x87, CHR 0xEF, CHR 0xBC, CHR 0x92]),
    (''LeftHandMiddle3'', [CHR 0xE5, CHR 0xB7, CHR 0xA6, CHR 0xE4, CHR 0xB8, CHR 0xAD, CHR 0xE6, CHR 0x8C, CHR 0x87, CHR 0xEF, CHR 0xBC, CHR 0x93]),
    (''LeftHandRing1'', [CHR 0xE5, CHR 0xB7, CHR 0xA6, CHR 0xE8, CHR 0x96, CHR 0xAC, CHR 0xE6, CHR 0x8C, CHR 0x87, CHR 0xEF, CHR 0xBC, CHR 0x91]),
    (''LeftHandRing2'', [CHR 0xE5, CHR 0xB7, CHR 0xA6, CHR 0xE8, CHR 0x96, CHR 0xAC, CHR 0xE6, CHR 0x8C, CHR 0x87, CHR 0xEF, CHR 0xBC, CHR 0x92]),
    (''LeftHandRing3'', [CHR 0xE5, CHR 0xB7, CHR 0xA6, CHR 0xE8, CHR 0x96, CHR 0xAC, CHR 0xE6, CHR 0x8C, CHR 0x87, CHR 0xEF, CHR 0xBC, CHR 0x93]),
    (''LeftHandPinky1'', [CHR 0xE5, CHR 0xB7, CHR 0xA6, CHR 0xE5, CHR 0xB0, CHR 0x8F, CHR 0xE6, CHR 0x8C, CHR 0x87, CHR 0xEF, CHR 0xBC, CHR 0x91]),
    (''LeftHandPinky2'', [CHR 0xE5, CHR 0xB7, CHR 0xA6, CHR 0xE5, CHR 0xB0, CHR 0x8F, CHR 0xE6, CHR 0x8C, CHR 0x87, CHR 0xEF, CHR 0xBC, CHR 0x92]),
    (''LeftHandPinky3'', [CHR 0xE5, CHR 0xB7, CHR 0xA6, CHR 0xE5, CHR 0xB0, CHR 0x8F, CHR 0xE6, CHR 0x8C, CHR 0x87, CHR 0xEF, CHR 0xBC, CHR 0x93])
  ]"

definition MIXAMO_MATRIX_LOCAL :: "(string \<times> quat) list" where
  "MIXAMO_MATRIX_LOCAL = [
    (''Hips'', Quat 0.0065 0 0 0.99998),
    (''Spine'', Quat (- 0.0737) 0 0 0.9973),
    (''Spine1'', Quat (- 0.0737) 0 0 0.9973),
    (''Spine2'', Quat (- 0.0609) 0 0 0.9981),
    (''Neck'', Quat (- 0.0609) 0 0 0.9981),
    (''Head'', Quat (- 0.0609) 0 0 0.9981),
    (''RightShoulder'', Quat 0.459 (- 0.5379) 0.5599 0.4318),
    (''RightArm'', Quat 0.5 (- 0.5) 0.5 0.5),
    (''RightForeArm'', Quat 0.5 (- 0.5) 0.5 0.5),
    (''RightHand'', Quat 0.5 (- 0.5) 0.5 0.5),
    (''LeftShoulder'', Quat (- 0.459) (- 0.5379) 0.5599 (- 0.4318)),
    (''LeftArm'', Quat 0.5 0.5 (- 0.5) 0.5),
    (''LeftForeArm'', Quat 0.5 0.5 (- 0.5) 0.5),
    (''LeftHand'', Quat 0.5 0.5 (- 0.5) 0.5),
    (''RightUpLeg'', Quat 0 0.0039 0.99999 0),
    (''RightLeg'', Quat 0 (- 0.0342) 0.99942 0),
    (''RightFoot'', Quat 0 0.4291 0.90326 0),
    (''RightToeBase'', Quat 0 0.7071 0.7071 0),
    (''LeftUpLeg'', Quat 0 0.0039 0.99999 0),
    (''LeftLeg'', Quat 0 (- 0.0342) 0.99942 0),
    (''LeftFoot'', Quat 0 0.4291 0.90326 0),
    (''LeftToeBase'', Quat 0 0.7071 0.7071 0),
    (''RightHandThumb1'', Quat 0.5 (- 0.5) 0.5 0.5),
    (''RightHandThumb2'', Quat 0.5 (- 0.5) 0.5 0.5),
    (''RightHandThumb3'', Quat 0.5 (- 0.5) 0.5 0.5),
    (''RightHandIndex1'', Quat 0.5 (- 0.5) 0.5 0.5),
    (''RightHandIndex2'', Quat 0.5 (- 0.5) 0.5 0.5),
    (''RightHandIndex3'', Quat 0.5 (- 0.5) 0.5 0.5),
    (''RightHandMiddle1'', Quat 0.5 (- 0.5) 0.5 0.5),
    (''RightHandMiddle2'', Quat 0.5 (- 0.5) 0.5 0.5),
    (''RightHandMiddle3'', Quat 0.5 (- 0.5) 0.5 0.5),
    (''RightHandRing1'', Quat 0.5 (- 0.5) 0.5 0.5),
    (''RightHandRing2'', Quat 0.5 (- 0.5) 0.5 0.5),
    (''RightHandRing3'', Quat 0.5 (- 0.5) 0.5 0.5),
    (''RightHandPinky1'', Quat 0.5 (- 0.5) 0.5 0.5),
    (''RightHandPinky2'', Quat 0.5 (- 0.5) 0.5 0.5),
    (''RightHandPinky3'', Quat 0.5 (- 0.5) 0.5 0.5),
    (''LeftHandThumb1'', Quat 0.5 0.5 (- 0.5) 0.5),
    (''LeftHandThumb2'', Quat 0.5 0.5 (- 0.5) 0.5),
    (''LeftHandThumb3'', Quat 0.5 0.5 (- 0.5) 0.5),
    (''LeftHandIndex1'', Quat 0.5 0.5 (- 0.5) 0.5),
    (''LeftHandIndex2'', Quat 0.5 0.5 (- 0.5) 0.5),
    (''LeftHandIndex3'', Quat 0.5 0.5 (- 0.5) 0.5),
    (''LeftHandMiddle1'', Quat 0.5 0.5 (- 0.5) 0.5),
    (''LeftHandMiddle2'', Quat 0.5 0.5 (- 0.5) 0.5),
    (''LeftHandMiddle3'', Quat 0.5 0.5 (- 0.5) 0.5),
    (''LeftHandRing1'', Quat 0.5 0.5 (- 0.5) 0.5),
    (''LeftHandRing2'', Quat 0.5 0.5 (- 0.5) 0.5),
    (''LeftHandRing3'', Quat 0.5 0.5 (- 0.5) 0.5),
    (''LeftHandPinky1'', Quat 0.5 0.5 (- 0.5) 0.5),
    (''LeftHandPinky2'', Quat 0.5 0.5 (- 0.5) 0.5),
    (''LeftHandPinky3'', Quat 0.5 0.5 (- 0.5) 0.5)
  ]"

definition ROTATE_WAB_L_SET :: "string list" where
  "ROTATE_WAB_L_SET = [
    ''LeftArm'', ''LeftForeArm'', ''LeftHandThumb1'',
    ''LeftHandThumb2'', ''LeftHandThumb3'', ''LeftHandIndex1'',
    ''LeftHandIndex2'', ''LeftHandIndex3'', ''LeftHandMiddle1'',
    ''LeftHandMiddle2'', ''LeftHandMiddle3'', ''LeftHandRing1'',
    ''LeftHandRing2'', ''LeftHandRing3'', ''LeftHandPinky1'',
    ''LeftHandPinky2'', ''LeftHandPinky3''
  ]"

definition ROTATE_WAB_R_SET :: "string list" where
  "ROTATE_WAB_R_SET = [
    ''RightArm'', ''RightForeArm'', ''RightHandThumb1'',
    ''RightHandThumb2'', ''RightHandThumb3'', ''RightHandIndex1'',
    ''RightHandIndex2'', ''RightHandIndex3'', ''RightHandMiddle1'',
    ''RightHandMiddle2'', ''RightHandMiddle3'', ''RightHandRing1'',
    ''RightHandRing2'', ''RightHandRing3'', ''RightHandPinky1'',
    ''RightHandPinky2'', ''RightHandPinky3''
  ]"

definition ROTATE_WBA_L_SET :: "string list" where
  "ROTATE_WBA_L_SET = [
    ''LeftForeArm'', ''LeftHandThumb1'', ''LeftHandThumb2'',
    ''LeftHandThumb3'', ''LeftHandIndex1'', ''LeftHandIndex2'',
    ''LeftHandIndex3'', ''LeftHandMiddle1'', ''LeftHandMiddle2'',
    ''LeftHandMiddle3'', ''LeftHandRing1'', ''LeftHandRing2'',
    ''LeftHandRing3'', ''LeftHandPinky1'', ''LeftHandPinky2'',
    ''LeftHandPinky3''
  ]"

definition ROTATE_WBA_R_SET :: "string list" where
  "ROTATE_WBA_R_SET = [
    ''RightForeArm'', ''RightHandThumb1'', ''RightHandThumb2'',
    ''RightHandThumb3'', ''RightHandIndex1'', ''RightHandIndex2'',
    ''RightHandIndex3'', ''RightHandMiddle1'', ''RightHandMiddle2'',
    ''RightHandMiddle3'', ''RightHandRing1'', ''RightHandRing2'',
    ''RightHandRing3'', ''RightHandPinky1'', ''RightHandPinky2'',
    ''RightHandPinky3''
  ]"

definition ARM_ANGLE :: real where
  "ARM_ANGLE = 35 * pi / 180"

definition Q_ARM_L :: quat where
  "Q_ARM_L = fromAxisAngle (Vec3 0 0 1) ARM_ANGLE"

definition Q_ARM_R :: quat where
  "Q_ARM_R = fromAxisAngle (Vec3 0 0 1) (- ARM_ANGLE)"

record RetargetTransform =
  q_l :: quat
  q_r :: quat

subsection \<open>Reading a plain object\<close>

text \<open>
  \<^verbatim>\<open>BONE_MAP\<close> and \<^verbatim>\<open>RETARGET_TRANSFORMS\<close> are plain objects, read with
  \<^verbatim>\<open>obj[key]\<close> for a key that comes from the input.  Such a read yields the object's
  own property when it has one, \<^verbatim>\<open>undefined\<close> when the key is unknown, and for the
  names below the member that the object inherits from \<^verbatim>\<open>Object.prototype\<close>: a
  function (for \<^verbatim>\<open>__proto__\<close> the prototype itself), which is neither \<^verbatim>\<open>undefined\<close>
  nor \<^verbatim>\<open>null\<close> nor falsy, is not a string, and has no property \<^verbatim>\<open>q_l\<close>.
\<close>

definition objectPrototypeMembers :: "string list" where
  "objectPrototypeMembers =
     [''constructor'', ''hasOwnProperty'', ''isPrototypeOf'', ''propertyIsEnumerable'',
      ''toLocaleString'', ''toString'', ''valueOf'', ''__proto__'',
      ''__defineGetter__'', ''__defineSetter__'', ''__lookupGetter__'', ''__lookupSetter__'']"

datatype 'a property = Own 'a | Inherited | Undefined

definition objectGet :: "(string \<Rightarrow> 'a option) \<Rightarrow> string \<Rightarrow> 'a property" where
  "objectGet obj key =
     (case obj key of
        Some v \<Rightarrow> Own v
      | None \<Rightarrow> if key \<in> set objectPrototypeMembers then Inherited else Undefined)"

subsection \<open>Precomputed transforms\<close>

text \<open>
  One pass of the loop body of \<^verbatim>\<open>computeRetargetTransforms\<close> for the key
  \<open>mixamoName\<close>: \<open>None\<close> is the \<^verbatim>\<open>continue\<close> taken when the bone has no rest
  quaternion.  The loop runs over \<^verbatim>\<open>Object.entries(BONE_MAP)\<close>, the own keys of the
  table in the order in which they are written; none of them is a name that objects
  inherit (lemma \<open>BONE_MAP_keys_own\<close> below), so the read of
  \<^verbatim>\<open>MIXAMO_MATRIX_LOCAL\<close> with such a key is the one of a map.
\<close>

definition transformOf :: "string \<Rightarrow> RetargetTransform option" where
  "transformOf mixamoName =
     (case map_of MIXAMO_MATRIX_LOCAL mixamoName of
        None \<Rightarrow> None
      | Some q_a \<Rightarrow>
          (let q_ai = conjugate q_a;
               r = (if mixamoName \<in> set ROTATE_WAB_L_SET then multiply q_ai Q_ARM_L
                    else if mixamoName \<in> set ROTATE_WAB_R_SET then multiply q_ai Q_ARM_R
                    else q_ai);
               l = (if mixamoName \<in> set ROTATE_WBA_L_SET then multiply Q_ARM_R q_a
                    else if mixamoName \<in> set ROTATE_WBA_R_SET then multiply Q_ARM_L q_a
                    else q_a)
           in Some \<lparr>q_l = l, q_r = r\<rparr>))"

definition computeRetargetTransforms :: "(string \<times> RetargetTransform) list" where
  "computeRetargetTransforms =
     fold (\<lambda>(mixamoName, _) tbl.
             case transformOf mixamoName of
               None \<Rightarrow> tbl
             | Some t \<Rightarrow> AList.update mixamoName t tbl)
          BONE_MAP []"

text \<open>
  The own properties of the table \<^verbatim>\<open>RETARGET_TRANSFORMS\<close> after the module has run
  \<^verbatim>\<open>computeRetargetTransforms\<close>: the precomputed transforms.  The retargeter reads the
  table with a name from its input, through \<open>objectGet\<close>.
\<close>

definition RETARGET_TRANSFORMS :: "string \<Rightarrow> RetargetTransform option" where
  "RETARGET_TRANSFORMS = map_of computeRetargetTransforms"

subsection \<open>Tracks\<close>

record BoneRestPose =
  lclRotation :: "real \<times> real \<times> real"
  lclTranslation :: "(real \<times> real \<times> real) option"
  preRotation :: "(real \<times> real \<times> real) option"
  postRotation :: "(real \<times> real \<times> real) option"

record BoneTrack =
  bt_name :: string
  bt_original_name :: string
  bt_times :: "real list"
  bt_quats :: "quat list"
  bt_restPose :: "BoneRestPose option"

record PositionTrack =
  pt_name :: string
  pt_original_name :: string
  pt_times :: "real list"
  pt_positions :: "real list list"

record AnimationClip =
  ac_name :: string
  ac_duration :: real
  ac_tracks :: "BoneTrack list"
  ac_positionTracks :: "PositionTrack list"

text \<open>
  The interfaces of the retargeted clip declare \<^verbatim>\<open>name: string\<close>.  The writer is given
  such clips; the retargeter can put a value there that is not a string (see
  \<open>mapBoneName\<close> below), so the records leave the type of the name open.
\<close>

record 'n RetargetedBoneTrack =
  rb_name :: 'n
  rb_originalName :: string
  rb_times :: "real list"
  rb_quats :: "quat list"

record 'n RetargetedPositionTrack =
  rp_name :: 'n
  rp_originalName :: string
  rp_times :: "real list"
  rp_positions :: "vec3 list"

record 'n RetargetedClip =
  rc_name :: string
  rc_duration :: real
  rc_fps :: real
  rc_boneTracks :: "'n RetargetedBoneTrack list"
  rc_positionTracks :: "'n RetargetedPositionTrack list"

definition POSITION_SCALE :: real where
  "POSITION_SCALE = 1 / 12.5"

definition POSITION_OFFSET_Y :: real where
  "POSITION_OFFSET_Y = - 8.3"

subsection \<open>Bone names\<close>

text \<open>
  \<^verbatim>\<open>name.match(/^mixamorig:(.+)$/)\<close>: without flags the dot matches every character
  but the four line terminators, so the pattern matches when the name is the prefix
  followed by a non-empty rest free of line terminators (U+000A, U+000D, and U+2028,
  U+2029 whose UTF-8 forms are \<open>E2 80 A8\<close> and \<open>E2 80 A9\<close>).
\<close>

fun hasLineTerminator :: "string \<Rightarrow> bool" where
  "hasLineTerminator [] = False"
| "hasLineTerminator (c # cs) =
     (c = CHR 0x0A \<or> c = CHR 0x0D
      \<or> (c = CHR 0xE2 \<and> (take 2 cs = [CHR 0x80, CHR 0xA8] \<or> take 2 cs = [CHR 0x80, CHR 0xA9]))
      \<or> hasLineTerminator cs)"

definition matchMixamorig :: "string \<Rightarrow> string option" where
  "matchMixamorig name =
     (let p = ''mixamorig:''; rest = drop (length p) name
      in if take (length p) name = p \<and> rest \<noteq> [] \<and> \<not> hasLineTerminator rest
         then Some rest else None)"

text \<open>
  The value of \<^verbatim>\<open>BONE_MAP[mixamoName] ?? mixamoName\<close>: a string, or the member of
  \<^verbatim>\<open>Object.prototype\<close> that the read finds under an inherited name.
\<close>

datatype boneName = Name string | ObjectMember string

definition mapBoneName :: "string \<Rightarrow> string \<times> boneName" where
  "mapBoneName name =
     (let mixamoName = (case matchMixamorig name of Some g \<Rightarrow> g | None \<Rightarrow> name);
          mmdName = (case objectGet (map_of BONE_MAP) mixamoName of
                       Own m \<Rightarrow> Name m
                     | Inherited \<Rightarrow> ObjectMember mixamoName
                     | Undefined \<Rightarrow> Name mixamoName)
      in (mixamoName, mmdName))"

subsection \<open>Rotation and position tracks\<close>

definition flipZW :: "quat \<Rightarrow> quat" where
  "flipZW q = Quat (qx q) (qy q) (- qz q) (- qw q)"

text \<open>
  The callback of \<^verbatim>\<open>track.quats.map\<close> in \<^verbatim>\<open>retargetBoneTrack\<close>.  \<^verbatim>\<open>!transform\<close> holds
  for \<^verbatim>\<open>undefined\<close> only; an inherited member passes the test, its \<^verbatim>\<open>q_l\<close> is
  \<^verbatim>\<open>undefined\<close>, and the call of \<^verbatim>\<open>multiply\<close> on it throws.
\<close>

definition retargetQuat :: "RetargetTransform property \<Rightarrow> quat \<Rightarrow> error + quat" where
  "retargetQuat transform q =
     (case transform of
        Undefined \<Rightarrow> Inr (Quat (qx q) (qy q) (- qz q) (- qw q))
      | Own tr \<Rightarrow>
          (let result = multiply (multiply (q_l tr) q) (q_r tr)
           in Inr (Quat (qx result) (qy result) (- qz result) (- qw result)))
      | Inherited \<Rightarrow> Inl TypeError)"

definition retargetBoneTrack :: "BoneTrack \<Rightarrow> error + boneName RetargetedBoneTrack" where
  "retargetBoneTrack track =
     (let (mixamoName, mmdName) = mapBoneName (bt_name track);
          transform = objectGet RETARGET_TRANSFORMS mixamoName
      in bindE (mapE (retargetQuat transform) (bt_quats track)) (\<lambda>quats.
         Inr \<lparr>rb_name = mmdName,
              rb_originalName = bt_original_name track,
              rb_times = bt_times track,
              rb_quats = quats\<rparr>))"

definition retargetPosition :: "quat \<Rightarrow> real list \<Rightarrow> vec3" where
  "retargetPosition ql p =
     (case p of
        [px, py, pz] \<Rightarrow>
          (let tx = 2 * (qy ql * pz - qz ql * py);
               ty = 2 * (qz ql * px - qx ql * pz);
               tz = 2 * (qx ql * py - qy ql * px);
               rx = px + qw ql * tx + (qy ql * tz - qz ql * ty);
               ry = py + qw ql * ty + (qz ql * tx - qx ql * tz);
               rz = pz + qw ql * tz + (qx ql * ty - qy ql * tx);
               sx = rx * POSITION_SCALE;
               sy = ry * POSITION_SCALE + POSITION_OFFSET_Y;
               sz = rz * POSITION_SCALE
           in Vec3 sx sy (- sz))
      | _ \<Rightarrow> Vec3 0 0 0)"

text \<open>
  \<^verbatim>\<open>transform?.q_l ?? Quat.identity()\<close>: the \<^verbatim>\<open>q_l\<close> of an inherited member is
  \<^verbatim>\<open>undefined\<close>, like the one of a missing entry.
\<close>

definition retargetPositionTrack :: "PositionTrack \<Rightarrow> boneName RetargetedPositionTrack" where
  "retargetPositionTrack track =
     (let (mixamoName, mmdName) = mapBoneName (pt_name track);
          transform = objectGet RETARGET_TRANSFORMS mixamoName;
          ql = (case transform of Own tr \<Rightarrow> q_l tr | Inherited \<Rightarrow> identity | Undefined \<Rightarrow> identity)
      in \<lparr>rp_name = mmdName,
          rp_originalName = pt_original_name track,
          rp_times = pt_times track,
          rp_positions = map (retargetPosition ql) (pt_positions track)\<rparr>)"

definition calculateDuration :: "AnimationClip \<Rightarrow> real" where
  "calculateDuration clip =
     (if ac_duration clip > 0 then ac_duration clip
      else (let sortedTimes = sort (remdups (concat (map bt_times (ac_tracks clip))
                                              @ concat (map pt_times (ac_positionTracks clip))))
            in if sortedTimes = [] then 0 else last sortedTimes))"

definition retargetClips :: "AnimationClip list \<Rightarrow> error + boneName RetargetedClip list" where
  "retargetClips clips =
     mapE (\<lambda>clip.
             (let duration = calculateDuration clip
              in bindE (mapE retargetBoneTrack (ac_tracks clip)) (\<lambda>boneTracks.
                 Inr \<lparr>rc_name = ac_name clip,
                      rc_duration = duration,
                      rc_fps = 30,
                      rc_boneTracks = boneTracks,
                      rc_positionTracks = map retargetPositionTrack (ac_positionTracks clip)\<rparr>)))
          clips"

text \<open>
  A track of the bone \<^verbatim>\<open>mixamorig:constructor\<close> with one key, and the same track
  under the name \<^verbatim>\<open>mixamorig:Tail\<close>, which no table knows.
\<close>

definition constructorTrack :: BoneTrack where
  "constructorTrack = \<lparr>bt_name = ''mixamorig:constructor'',
     bt_original_name = ''mixamorig:constructor'',
     bt_times = [0], bt_quats = [Quat 1 2 3 4], bt_restPose = None\<rparr>"

definition tailTrack :: BoneTrack where
  "tailTrack = \<lparr>bt_name = ''mixamorig:Tail'',
     bt_original_name = ''mixamorig:Tail'',
     bt_times = [0], bt_quats = [Quat 1 2 3 4], bt_restPose = None\<rparr>"

text \<open>
  \<open>rotZ d\<close> is the spec's \<open>rot(Z, d\<degree>)\<close>, the rotation by \<open>d\<close> degrees about the
  Z axis; \<^verbatim>\<open>Q_ARM_L\<close> and \<^verbatim>\<open>Q_ARM_R\<close> are \<open>rotZ 35\<close> and \<open>rotZ (- 35)\<close>.
\<close>

definition rotZ :: "real \<Rightarrow> quat" where
  "rotZ degrees = fromAxisAngle (Vec3 0 0 1) (degrees * pi / 180)"

section \<open>The rotation assembler (\<^verbatim>\<open>lib/fbx.ts\<close>)\<close>

text \<open>
  A curve is the pair of arrays \<^verbatim>\<open>{ times, values }\<close> that \<^verbatim>\<open>parseCurveNode\<close> collects
  for one axis: key times in seconds and key values in degrees.  The key values are the
  floats of the file as they are, any number; the key times are the file's integer ticks
  divided by a constant, and are taken as reals (the order in which
  \<^verbatim>\<open>Array.prototype.sort\<close> leaves an array with NaN under the comparator
  \<^verbatim>\<open>(a, b) => a - b\<close> is not defined by the language).
\<close>

record Curve =
  c_times :: "real list"
  c_values :: "number list"

definition convertFBXTimeToSeconds :: "real \<Rightarrow> real" where
  "convertFBXTimeToSeconds time = time / 46186158000"

definition degToRad :: "number \<Rightarrow> number" where
  "degToRad degrees = degrees * Math_PI / Finite 180"

definition eulerToQuaternionZXY :: "number \<Rightarrow> number \<Rightarrow> number \<Rightarrow> nquat" where
  "eulerToQuaternionZXY z x y =
     (let cz = Math_cos (z / Finite 2); cx = Math_cos (x / Finite 2); cy = Math_cos (y / Finite 2);
          sz = Math_sin (z / Finite 2); sx = Math_sin (x / Finite 2); sy = Math_sin (y / Finite 2)
      in NQuat (sx * cy * cz - cx * sy * sz)
               (cx * sy * cz + sx * cy * sz)
               (cx * cy * sz - sx * sy * cz)
               (cx * cy * cz + sx * sy * sz))"

definition eulerToQuaternionByOrder :: "number \<Rightarrow> number \<Rightarrow> number \<Rightarrow> string \<Rightarrow> nquat" where
  "eulerToQuaternionByOrder x y z order =
     (if order \<noteq> ''ZXY'' then NQuat (Finite 0) (Finite 0) (Finite 0) (Finite 1)
      else eulerToQuaternionZXY z x y)"

text \<open>
  The dot product of two quaternions and the component-wise negation, which the source
  writes out in place.
\<close>

definition ndot :: "nquat \<Rightarrow> nquat \<Rightarrow> number" where
  "ndot a b = nqx a * nqx b + nqy a * nqy b + nqz a * nqz b + nqw a * nqw b"

definition nneg :: "nquat \<Rightarrow> nquat" where
  "nneg q = NQuat (- nqx q) (- nqy q) (- nqz q) (- nqw q)"

definition slerp :: "nquat \<Rightarrow> nquat \<Rightarrow> number \<Rightarrow> nquat" where
  "slerp q1 q2 t =
     (let dot = nqx q1 * nqx q2 + nqy q1 * nqy q2 + nqz q1 * nqz q2 + nqw q1 * nqw q2;
          q2x = (if dot < Finite 0 then - nqx q2 else nqx q2);
          q2y = (if dot < Finite 0 then - nqy q2 else nqy q2);
          q2z = (if dot < Finite 0 then - nqz q2 else nqz q2);
          q2w = (if dot < Finite 0 then - nqw q2 else nqw q2)
      in if Finite 0.9995 < \<bar>dot\<bar> then
           (let result = NQuat (nqx q1 + (q2x - nqx q1) * t)
                               (nqy q1 + (q2y - nqy q1) * t)
                               (nqz q1 + (q2z - nqz q1) * t)
                               (nqw q1 + (q2w - nqw q1) * t);
                len = Math_sqrt (nqx result * nqx result + nqy result * nqy result
                                 + nqz result * nqz result + nqw result * nqw result)
            in if Finite 0 < len
               then NQuat (nqx result / len) (nqy result / len) (nqz result / len) (nqw result / len)
               else result)
         else
           (let theta = Math_acos \<bar>dot\<bar>;
                sinTheta = Math_sin theta;
                w1 = Math_sin ((Finite 1 - t) * theta) / sinTheta;
                w2 = Math_sin (t * theta) / sinTheta
            in NQuat (w1 * nqx q1 + w2 * q2x)
                     (w1 * nqy q1 + w2 * q2y)
                     (w1 * nqz q1 + w2 * q2z)
                     (w1 * nqw q1 + w2 * q2w)))"

definition quaternionToEuler :: "nquat \<Rightarrow> nvec3" where
  "quaternionToEuler q =
     (let qx = nqx q; qy = nqy q; qz = nqz q; qw = nqw q;
          sinX = Finite 2 * (qy * qz + qw * qx)
      in if Finite 0.9999 \<le> \<bar>sinX\<bar> then
           NVec3 (Math_sign sinX * Math_PI / Finite 2)
                 (Math_atan2 (Finite 2 * (qx * qy + qw * qz))
                             (Finite 1 - Finite 2 * (qy * qy + qz * qz)))
                 (Finite 0)
         else
           NVec3 (Math_asin sinX)
                 (Math_atan2 (- (Finite 2 * (qx * qz - qw * qy)))
                             (Finite 1 - Finite 2 * (qx * qx + qy * qy)))
                 (Math_atan2 (- (Finite 2 * (qx * qy - qw * qz)))
                             (Finite 1 - Finite 2 * (qx * qx + qz * qz))))"

subsection \<open>Linear interpolation of one axis\<close>

text \<open>
  The scan of \<^verbatim>\<open>interpolateValue\<close> for the surrounding key pair; \<open>None\<close> when the loop
  runs out.  It is entered with equally long arrays and a target strictly between the
  first and the last key time; the first pair that encloses the target then has distinct
  times (lemma \<open>surrounding_distinct_pair\<close> below), so the quotient of the two time
  differences is never \<open>0/0\<close>.
\<close>

fun surrounding :: "real list \<Rightarrow> number list \<Rightarrow> real \<Rightarrow> number option" where
  "surrounding (t0 # t1 # ts) (v0 # v1 # vs) targetTime =
     (if targetTime \<ge> t0 \<and> targetTime \<le> t1
      then (let t = (targetTime - t0) / (t1 - t0) in Some (v0 + (v1 - v0) * Finite t))
      else surrounding (t1 # ts) (v1 # vs) targetTime)"
| "surrounding _ _ _ = None"

definition interpolateValue :: "real list \<Rightarrow> number list \<Rightarrow> real \<Rightarrow> number" where
  "interpolateValue tms vals targetTime =
     (if length tms = 0 \<or> length vals = 0 then Finite 0
      else if length tms \<noteq> length vals then Finite 0
      else if targetTime \<le> tms ! 0 then vals ! 0
      else if targetTime \<ge> tms ! (length tms - 1) then vals ! (length vals - 1)
      else (case surrounding tms vals targetTime of
              Some v \<Rightarrow> v
            | None \<Rightarrow> vals ! (length vals - 1)))"

subsection \<open>Merged timeline and subdivision\<close>

definition roundTime :: "real \<Rightarrow> real" where
  "roundTime t = of_int (round (t * 1000000)) / 1000000"

text \<open>
  The inner loop \<^verbatim>\<open>for (let t = step; t < 1; t += step)\<close>, which emits one time and one
  Euler triple per intermediate frame.  A step of 0 (from an infinite span) leaves \<open>t\<close>
  below 1 for ever; the result \<open>None\<close> stands for a loop that does not end.
\<close>

partial_function (option) subFrames ::
  "nquat \<Rightarrow> nquat \<Rightarrow> real \<Rightarrow> real \<Rightarrow> number \<Rightarrow> number \<Rightarrow> (number list \<times> number list) option" where
  "subFrames Q1 Q2 initialTime timeSpan step t =
     (if t < Finite 1 then
        Option.bind (subFrames Q1 Q2 initialTime timeSpan step (t + step))
          (\<lambda>later.
             Some ((Finite initialTime + t * Finite timeSpan) # fst later,
                   [nvx (quaternionToEuler (slerp Q1 Q2 t)),
                    nvy (quaternionToEuler (slerp Q1 Q2 t)),
                    nvz (quaternionToEuler (slerp Q1 Q2 t))] @ snd later))
      else Some ([], []))"

text \<open>
  One pass of the frame loop of \<^verbatim>\<open>interpolateRotations\<close>, for the frames \<open>i \<minus> 1\<close> and
  \<open>i\<close>: the times and the Euler angles (radians) it appends.  A frame is its merged time
  with the three interpolated values in degrees.
\<close>

definition frameStep ::
  "string \<Rightarrow> real \<times> number \<times> number \<times> number \<Rightarrow> real \<times> number \<times> number \<times> number
     \<Rightarrow> (number list \<times> number list) option" where
  "frameStep eulerOrder prev cur =
     (let (initialTime, ix, iy, iz) = prev; (currentTime, cx, cy, cz) = cur
      in if isNaN ix \<or> isNaN iy \<or> isNaN iz \<or> isNaN cx \<or> isNaN cy \<or> isNaN cz
         then Some ([], [])
         else
           (let absoluteSpan = [\<bar>cx - ix\<bar>, \<bar>cy - iy\<bar>, \<bar>cz - iz\<bar>];
                final = ([Finite currentTime], [degToRad cx, degToRad cy, degToRad cz])
            in if Finite 180 \<le> absoluteSpan ! 0 \<or> Finite 180 \<le> absoluteSpan ! 1
                  \<or> Finite 180 \<le> absoluteSpan ! 2
               then
                 (let maxAbsSpan = Math_max absoluteSpan;
                      numSubIntervals = Math_ceil (maxAbsSpan / Finite 180);
                      E1 = eulerToQuaternionByOrder (degToRad ix) (degToRad iy) (degToRad iz) eulerOrder;
                      E2 = eulerToQuaternionByOrder (degToRad cx) (degToRad cy) (degToRad cz) eulerOrder;
                      Q1 = E1;
                      Q2 = (if ndot Q1 E2 < Finite 0 then nneg E2 else E2);
                      timeSpan = currentTime - initialTime;
                      step = Finite 1 / numSubIntervals
                  in case subFrames Q1 Q2 initialTime timeSpan step step of
                       None \<Rightarrow> None
                     | Some (ts, vs) \<Rightarrow> Some (ts @ fst final, vs @ snd final))
               else Some final))"

fun frameLoop ::
  "string \<Rightarrow> (real \<times> number \<times> number \<times> number) list \<Rightarrow> (number list \<times> number list) option" where
  "frameLoop eulerOrder (prev # cur # rest) =
     (case frameStep eulerOrder prev cur of
        None \<Rightarrow> None
      | Some (ts, vs) \<Rightarrow>
          (case frameLoop eulerOrder (cur # rest) of
             None \<Rightarrow> None
           | Some (ts', vs') \<Rightarrow> Some (ts @ ts', vs @ vs')))"
| "frameLoop eulerOrder _ = Some ([], [])"

definition mergedTimesOf :: "Curve \<Rightarrow> Curve \<Rightarrow> Curve \<Rightarrow> real list" where
  "mergedTimesOf curvex curvey curvez =
     sort (remdups (map roundTime (c_times curvex) @ map roundTime (c_times curvey)
                    @ map roundTime (c_times curvez)))"

text \<open>The array \<^verbatim>\<open>interpolatedValues\<close>, each triple with its merged time.\<close>

definition interpolatedValuesOf ::
  "Curve \<Rightarrow> Curve \<Rightarrow> Curve \<Rightarrow> (real \<times> number \<times> number \<times> number) list" where
  "interpolatedValuesOf curvex curvey curvez =
     map (\<lambda>time. (time,
                   interpolateValue (c_times curvex) (c_values curvex) time,
                   interpolateValue (c_times curvey) (c_values curvey) time,
                   interpolateValue (c_times curvez) (c_values curvez) time))
         (mergedTimesOf curvex curvey curvez)"

text \<open>
  \<^verbatim>\<open>interpolateRotations\<close>: the first frame is pushed as it is, without the test for NaN
  that the frame loop applies to the later ones.
\<close>

definition interpolateRotations ::
  "Curve \<Rightarrow> Curve \<Rightarrow> Curve \<Rightarrow> string \<Rightarrow> (number list \<times> number list) option" where
  "interpolateRotations curvex curvey curvez eulerOrder =
     (let mergedTimes = mergedTimesOf curvex curvey curvez
      in if length mergedTimes = 0 then Some ([], [])
         else
           (let interpolatedValues = interpolatedValuesOf curvex curvey curvez;
                (t0, x0, y0, z0) = hd interpolatedValues
            in case frameLoop eulerOrder interpolatedValues of
                 None \<Rightarrow> None
               | Some (ts, vs) \<Rightarrow>
                   Some (Finite t0 # ts, [degToRad x0, degToRad y0, degToRad z0] @ vs)))"

subsection \<open>Quaternion track\<close>

text \<open>
  The conversion loop of \<^verbatim>\<open>generateQuaternions\<close> over the flat array of Euler angles,
  three per frame (\<open>tms\<close> and \<open>vals\<close> stand for the arrays \<^verbatim>\<open>times\<close> and
  \<^verbatim>\<open>values\<close>).  \<^verbatim>\<open>i > 0\<close> holds exactly when a quaternion has been pushed already.
\<close>

fun eulerQuats :: "string \<Rightarrow> number list \<Rightarrow> nquat list \<Rightarrow> nquat list" where
  "eulerQuats eulerOrder (xRad # yRad # zRad # rest) quats =
     (let quat = eulerToQuaternionByOrder xRad yRad zRad eulerOrder;
          resultQuat =
            (if quats \<noteq> [] then
               (let prevQuat = last quats;
                    dot = nqx prevQuat * nqx quat + nqy prevQuat * nqy quat
                          + nqz prevQuat * nqz quat + nqw prevQuat * nqw quat
                in if dot < Finite 0 then NQuat (- nqx quat) (- nqy quat) (- nqz quat) (- nqw quat)
                   else quat)
             else quat)
      in eulerQuats eulerOrder rest (quats @ [resultQuat]))"
| "eulerQuats eulerOrder _ quats = quats"

definition generateQuaternions ::
  "Curve \<Rightarrow> Curve \<Rightarrow> Curve \<Rightarrow> string \<Rightarrow> (number list \<times> nquat list) option" where
  "generateQuaternions curvex curvey curvez eulerOrder =
     (case interpolateRotations curvex curvey curvez eulerOrder of
        None \<Rightarrow> None
      | Some (tms, vals) \<Rightarrow>
          if length vals mod 3 \<noteq> 0 then Some ([], [])
          else if length tms \<noteq> length vals div 3 then Some ([], [])
          else Some (tms, eulerQuats eulerOrder vals []))"

subsection \<open>Notions for the statements about the assembler\<close>



definition notInfinite :: "number \<Rightarrow> bool" where
  "notInfinite v = (v \<noteq> PosInfinity \<and> v \<noteq> NegInfinity)"


definition firstFrameDefined :: "Curve \<Rightarrow> Curve \<Rightarrow> Curve \<Rightarrow> bool" where
  "firstFrameDefined curvex curvey curvez =
     (case interpolatedValuesOf curvex curvey curvez of
        [] \<Rightarrow> True
      | (t, x, y, z) # _ \<Rightarrow> \<not> isNaN x \<and> \<not> isNaN y \<and> \<not> isNaN z)"

text \<open>
  The curves of the large-arc scenario: the X axis sweeps from \<open>0\<degree>\<close> at \<open>t = 0\<close> to
  \<open>360\<degree>\<close> at \<open>t = 1\<close>, the Y and Z axes are keyed at the same times with the value 0.
\<close>

definition sweepX :: Curve where
  "sweepX = \<lparr>c_times = [0, 1], c_values = [Finite 0, Finite 360]\<rparr>"

definition zeroCurve :: Curve where
  "zeroCurve = \<lparr>c_times = [0, 1], c_values = [Finite 0, Finite 0]\<rparr>"


text \<open>
  X curves with infinite key values: both keys \<open>+\<infinity>\<close>, and a finite key followed by \<open>+\<infinity>\<close>.
\<close>

definition infiniteCurve :: Curve where
  "infiniteCurve = \<lparr>c_times = [0, 1], c_values = [PosInfinity, PosInfinity]\<rparr>"

definition divergingCurve :: Curve where
  "divergingCurve = \<lparr>c_times = [0, 1], c_values = [Finite 0, PosInfinity]\<rparr>"

text \<open>The identity rotation \<open>(0, 0, 0, 1)\<close> and the quaternion whose components are all NaN.\<close>

abbreviation nidentity :: nquat where
  "nidentity \<equiv> NQuat (Finite 0) (Finite 0) (Finite 0) (Finite 1)"


section \<open>The destination writer (VMD)\<close>

subsection \<open>Keyframes\<close>

text \<open>
  The bone-frame writer tests every component it writes with \<^verbatim>\<open>isFinite\<close>.  A keyframe
  therefore carries components of the type \<open>number\<close>; the keyframe builder fills them
  with the real components of the clip.
\<close>

definition quatN :: "quat \<Rightarrow> nquat" where
  "quatN q = NQuat (Finite (qx q)) (Finite (qy q)) (Finite (qz q)) (Finite (qw q))"

definition vec3N :: "vec3 \<Rightarrow> nvec3" where
  "vec3N v = NVec3 (Finite (vx v)) (Finite (vy v)) (Finite (vz v))"

type_synonym byte = "8 word"

text \<open>
  What the writer takes from its platform and its libraries, as parameters of the model:
  the Shift-JIS encoder of the \<^verbatim>\<open>encoding-japanese\<close> package, the IEEE binary32 bit
  pattern that \<^verbatim>\<open>DataView.setFloat32\<close> stores for a number, \<^verbatim>\<open>String.localeCompare\<close>,
  and the \<^verbatim>\<open>normalize\<close> method of the engine's \<^verbatim>\<open>Quat\<close>.
\<close>

record platform =
  encodeShiftJIS :: "string \<Rightarrow> byte list"
  float32Bits :: "number \<Rightarrow> 32 word"
  localeCompare :: "string \<Rightarrow> string \<Rightarrow> int"
  normalize :: "nquat \<Rightarrow> nquat"

record VMDBoneKeyframe =
  kf_boneName :: string
  kf_frameNumber :: int
  kf_position :: "nvec3 option"
  kf_rotation :: "nquat option"

subsection \<open>The \<^verbatim>\<open>DataView\<close> over the output buffer\<close>

definition setUint8 :: "byte list \<Rightarrow> nat \<Rightarrow> byte \<Rightarrow> error + byte list" where
  "setUint8 dataView off v =
     (if off < length dataView then Inr (dataView[off := v]) else Inl RangeError)"

text \<open>Consecutive \<^verbatim>\<open>setUint8\<close> calls at \<open>off\<close>, \<open>off + 1\<close>, \dots\<close>

fun setBytes :: "byte list \<Rightarrow> nat \<Rightarrow> byte list \<Rightarrow> error + byte list" where
  "setBytes dataView off [] = Inr dataView"
| "setBytes dataView off (b # bs) =
     (case setUint8 dataView off b of
        Inl e \<Rightarrow> Inl e
      | Inr dataView' \<Rightarrow> setBytes dataView' (Suc off) bs)"

definition le32 :: "32 word \<Rightarrow> byte list" where
  "le32 w = [ucast w, ucast (drop_bit 8 w), ucast (drop_bit 16 w), ucast (drop_bit 24 w)]"

text \<open>
  \<^verbatim>\<open>setUint32(off, v, true)\<close> and \<^verbatim>\<open>setFloat32(off, v, true)\<close>: the range of all four
  bytes is checked before any is stored, and the value is stored little-endian.  The
  integer argument is reduced modulo \<open>2\<^sup>3\<^sup>2\<close> by the caller's \<open>word_of_int\<close>.
\<close>

definition setUint32 :: "byte list \<Rightarrow> nat \<Rightarrow> 32 word \<Rightarrow> error + byte list" where
  "setUint32 dataView off w =
     (if off + 4 \<le> length dataView then setBytes dataView off (le32 w) else Inl RangeError)"

definition setFloat32 :: "platform \<Rightarrow> byte list \<Rightarrow> nat \<Rightarrow> number \<Rightarrow> error + byte list" where
  "setFloat32 env dataView off v = setUint32 dataView off (float32Bits env v)"

text \<open>
  The bytes stored by the loop \<^verbatim>\<open>for (i = 0; i < n; i++) setUint8(offset + i,
  i < nameBytes.length ? nameBytes[i] : 0)\<close>: the name truncated or NUL-padded to \<open>n\<close>.
\<close>

definition fieldBytes :: "nat \<Rightarrow> byte list \<Rightarrow> byte list" where
  "fieldBytes n nameBytes = map (\<lambda>i. if i < length nameBytes then nameBytes ! i else 0) [0..<n]"

definition charCodes :: "string \<Rightarrow> byte list" where
  "charCodes s = map (\<lambda>c. of_nat (of_char c)) s"

subsection \<open>\<^verbatim>\<open>writeBoneFrame\<close>\<close>

text \<open>
  The values handed to the four-byte float stores: lines 28--30 and 36--39 of the writer.
\<close>

definition writtenPosition :: "nvec3 \<Rightarrow> nvec3" where
  "writtenPosition p =
     (let posX = (if isFinite (nvx p) then nvx p else Finite 0);
          posY = (if isFinite (nvy p) then nvy p else Finite 0);
          posZ = (if isFinite (nvz p) then nvz p else Finite 0)
      in NVec3 posX posY posZ)"

definition writtenRotation :: "nquat \<Rightarrow> nquat" where
  "writtenRotation r =
     (let rotX = (if isFinite (nqx r) then nqx r else Finite 0);
          rotY = (if isFinite (nqy r) then nqy r else Finite 0);
          rotZ = (if isFinite (nqz r) then nqz r else Finite 0);
          rotW = (if isFinite (nqw r) then nqw r else Finite 1)
      in NQuat rotX rotY rotZ rotW)"

text \<open>
  \<^verbatim>\<open>writeBoneFrame(dataView, offset, keyframe)\<close> returns the buffer and the new offset.
  Reading a component of an \<^verbatim>\<open>undefined\<close> position or rotation is a \<open>TypeError\<close>.
\<close>

definition writeBoneFrame ::
  "platform \<Rightarrow> byte list \<Rightarrow> nat \<Rightarrow> VMDBoneKeyframe \<Rightarrow> error + (byte list \<times> nat)" where
  "writeBoneFrame env dataView offset keyframe =
     (let nameBytes = encodeShiftJIS env (kf_boneName keyframe)
      in bindE (setBytes dataView offset (fieldBytes 15 nameBytes)) (\<lambda>dv1.
         bindE (setUint32 dv1 (offset + 15) (word_of_int (kf_frameNumber keyframe))) (\<lambda>dv2.
         case kf_position keyframe of
           None \<Rightarrow> Inl TypeError
         | Some p \<Rightarrow>
         bindE (setFloat32 env dv2 (offset + 19) (nvx (writtenPosition p))) (\<lambda>dv3.
         bindE (setFloat32 env dv3 (offset + 19 + 4) (nvy (writtenPosition p))) (\<lambda>dv4.
         bindE (setFloat32 env dv4 (offset + 19 + 8) (nvz (writtenPosition p))) (\<lambda>dv5.
         case kf_rotation keyframe of
           None \<Rightarrow> Inl TypeError
         | Some r \<Rightarrow>
         bindE (setFloat32 env dv5 (offset + 31) (nqx (writtenRotation r))) (\<lambda>dv6.
         bindE (setFloat32 env dv6 (offset + 31 + 4) (nqy (writtenRotation r))) (\<lambda>dv7.
         bindE (setFloat32 env dv7 (offset + 31 + 8) (nqz (writtenRotation r))) (\<lambda>dv8.
         bindE (setFloat32 env dv8 (offset + 31 + 12) (nqw (writtenRotation r))) (\<lambda>dv9.
         bindE (setBytes dv9 (offset + 47) (replicate 64 20)) (\<lambda>dv10.
         Inr (dv10, offset + 111))))))))))))"

subsection \<open>Interpolation at a time without a key\<close>

fun findIndex :: "('a \<Rightarrow> bool) \<Rightarrow> 'a list \<Rightarrow> nat option" where
  "findIndex P [] = None"
| "findIndex P (x # xs) = (if P x then Some 0 else map_option Suc (findIndex P xs))"

text \<open>
  The blend of \<^verbatim>\<open>interpolateQuat\<close> once both neighbours are read.  \<^verbatim>\<open>Math.acos\<close> of
  an argument above 1 is NaN, which fails the comparison with 0.001 and then turns
  every component of the slerp into NaN.
\<close>

definition blendQuat :: "platform \<Rightarrow> quat \<Rightarrow> quat \<Rightarrow> real \<Rightarrow> nquat" where
  "blendQuat env q0 q1 t =
     (let dot = qx q0 * qx q1 + qy q0 * qy q1 + qz q0 * qz q1 + qw q0 * qw q1;
          q1Adjusted = (if dot < 0 then Quat (- qx q1) (- qy q1) (- qz q1) (- qw q1) else q1)
      in if \<bar>dot\<bar> > 1 then normalize env (NQuat NaN NaN NaN NaN)
         else
           (let angle = arccos \<bar>dot\<bar>
            in if \<bar>angle\<bar> < 0.001 then
                 normalize env (quatN (Quat (qx q0 + (qx q1Adjusted - qx q0) * t)
                                            (qy q0 + (qy q1Adjusted - qy q0) * t)
                                            (qz q0 + (qz q1Adjusted - qz q0) * t)
                                            (qw q0 + (qw q1Adjusted - qw q0) * t)))
               else
                 (let sinAngle = sin angle;
                      w0 = sin ((1 - t) * angle) / sinAngle;
                      w1 = sin (t * angle) / sinAngle
                  in normalize env (quatN (Quat (w0 * qx q0 + w1 * qx q1Adjusted)
                                                (w0 * qy q0 + w1 * qy q1Adjusted)
                                                (w0 * qz q0 + w1 * qz q1Adjusted)
                                                (w0 * qw q0 + w1 * qw q1Adjusted))))))"

text \<open>
  \<^verbatim>\<open>interpolateQuat\<close> and \<^verbatim>\<open>interpolatePosition\<close>.  The result \<open>Inr None\<close> is the
  \<^verbatim>\<open>undefined\<close> of an array read out of range, which the functions return as it is;
  \<open>tms\<close> stands for \<^verbatim>\<open>track.times\<close>.
\<close>

definition interpolateQuat ::
  "platform \<Rightarrow> string RetargetedBoneTrack \<Rightarrow> real \<Rightarrow> error + nquat option" where
  "interpolateQuat env track time =
     (let tms = rb_times track; quats = rb_quats track
      in case findIndex (\<lambda>t. t \<ge> time) tms of
           None \<Rightarrow> Inr (if quats = [] then None else Some (quatN (last quats)))
         | Some idx \<Rightarrow>
             if idx = 0 \<or> tms ! idx = time then Inr (map_option quatN (nth_opt quats idx))
             else
               (let t0 = tms ! (idx - 1);
                    t1 = tms ! idx;
                    t = (time - t0) / (t1 - t0)
                in case (nth_opt quats (idx - 1), nth_opt quats idx) of
                     (Some q0, Some q1) \<Rightarrow> Inr (Some (blendQuat env q0 q1 t))
                   | _ \<Rightarrow> Inl TypeError))"

definition interpolatePosition ::
  "string RetargetedPositionTrack \<Rightarrow> real \<Rightarrow> error + nvec3 option" where
  "interpolatePosition track time =
     (let tms = rp_times track; positions = rp_positions track
      in case findIndex (\<lambda>t. t \<ge> time) tms of
           None \<Rightarrow> Inr (if positions = [] then None else Some (vec3N (last positions)))
         | Some idx \<Rightarrow>
             if idx = 0 \<or> tms ! idx = time then Inr (map_option vec3N (nth_opt positions idx))
             else
               (let t0 = tms ! (idx - 1);
                    t1 = tms ! idx;
                    t = (time - t0) / (t1 - t0)
                in case (nth_opt positions (idx - 1), nth_opt positions idx) of
                     (Some p0, Some p1) \<Rightarrow>
                       Inr (Some (vec3N (Vec3 (vx p0 + (vx p1 - vx p0) * t)
                                              (vy p0 + (vy p1 - vy p0) * t)
                                              (vz p0 + (vz p1 - vz p0) * t))))
                   | _ \<Rightarrow> Inl TypeError))"

subsection \<open>Keyframes of a clip\<close>

fun foldE :: "('a \<Rightarrow> 's \<Rightarrow> error + 's) \<Rightarrow> 'a list \<Rightarrow> 's \<Rightarrow> error + 's" where
  "foldE f [] s = Inr s"
| "foldE f (x # xs) s = (case f x s of Inl e \<Rightarrow> Inl e | Inr s' \<Rightarrow> foldE f xs s')"

text \<open>
  \<^verbatim>\<open>positionTrackMap\<close>: a JavaScript \<^verbatim>\<open>Map\<close> is an association list in insertion
  order; \<^verbatim>\<open>set\<close> on a key that is present replaces the value in place, which is
  \<^const>\<open>AList.update\<close>.
\<close>

definition positionTrackMap :: "string RetargetedClip \<Rightarrow> (string \<times> string RetargetedPositionTrack) list" where
  "positionTrackMap clip =
     fold (\<lambda>track m. AList.update (rp_name track) track m) (rc_positionTracks clip) []"

text \<open>
  The body of the loop over \<^verbatim>\<open>sortedBoneTimes\<close> (lines 139--159): the keyframe of a
  bone track at one time.
\<close>

definition boneKeyframeAt ::
  "platform \<Rightarrow> real \<Rightarrow> string RetargetedBoneTrack \<Rightarrow> string RetargetedPositionTrack option \<Rightarrow> real
     \<Rightarrow> error + VMDBoneKeyframe" where
  "boneKeyframeAt env fps track posTrack time =
     (let frameNumber = round (time * fps)
      in bindE (case findIndex (\<lambda>t. \<bar>t - time\<bar> < 0.0001) (rb_times track) of
                  Some rotationIdx \<Rightarrow> Inr (map_option quatN (nth_opt (rb_quats track) rotationIdx))
                | None \<Rightarrow> interpolateQuat env track time) (\<lambda>rot.
         bindE (case posTrack of
                  Some pt \<Rightarrow>
                    (case findIndex (\<lambda>t. \<bar>t - time\<bar> < 0.0001) (rp_times pt) of
                       Some positionIdx \<Rightarrow>
                         Inr (map_option vec3N (nth_opt (rp_positions pt) positionIdx))
                     | None \<Rightarrow> interpolatePosition pt time)
                | None \<Rightarrow> Inr (Some (vec3N (Vec3 0 0 0)))) (\<lambda>pos.
         Inr \<lparr>kf_boneName = rb_name track, kf_frameNumber = frameNumber,
              kf_position = pos, kf_rotation = rot\<rparr>)))"

text \<open>
  The per-bone map \<^verbatim>\<open>boneKeyframes\<close> of a rotation track (lines 129--160), with the
  position track of the same name and the sorted union of both tracks' times.
\<close>

definition posTrackOf :: "string RetargetedClip \<Rightarrow> string RetargetedBoneTrack \<Rightarrow> string RetargetedPositionTrack option" where
  "posTrackOf clip track = map_of (positionTrackMap clip) (rb_name track)"

definition sortedBoneTimesOf :: "string RetargetedClip \<Rightarrow> string RetargetedBoneTrack \<Rightarrow> real list" where
  "sortedBoneTimesOf clip track =
     sort (remdups (rb_times track
                    @ (case posTrackOf clip track of Some pt \<Rightarrow> rp_times pt | None \<Rightarrow> [])))"

definition boneKeyframesOf ::
  "platform \<Rightarrow> real \<Rightarrow> string RetargetedClip \<Rightarrow> string RetargetedBoneTrack
     \<Rightarrow> error + (int \<times> VMDBoneKeyframe) list" where
  "boneKeyframesOf env fps clip track =
     foldE (\<lambda>time boneKeyframes.
              bindE (boneKeyframeAt env fps track (posTrackOf clip track) time) (\<lambda>kf.
              Inr (AList.update (kf_frameNumber kf) kf boneKeyframes)))
           (sortedBoneTimesOf clip track) []"

text \<open>The per-bone map of a position track without a rotation track (lines 168--184).\<close>

definition positionKeyframeAt ::
  "real \<Rightarrow> string RetargetedPositionTrack \<Rightarrow> real \<Rightarrow> error + VMDBoneKeyframe" where
  "positionKeyframeAt fps posTrack time =
     (let frameNumber = round (time * fps)
      in bindE (case findIndex (\<lambda>t. \<bar>t - time\<bar> < 0.0001) (rp_times posTrack) of
                  Some positionIdx \<Rightarrow>
                    Inr (map_option vec3N (nth_opt (rp_positions posTrack) positionIdx))
                | None \<Rightarrow> interpolatePosition posTrack time) (\<lambda>pos.
         Inr \<lparr>kf_boneName = rp_name posTrack, kf_frameNumber = frameNumber,
              kf_position = pos, kf_rotation = Some (quatN (Quat 0 0 0 1))\<rparr>))"

definition positionKeyframesOf ::
  "real \<Rightarrow> string RetargetedPositionTrack \<Rightarrow> error + (int \<times> VMDBoneKeyframe) list" where
  "positionKeyframesOf fps posTrack =
     foldE (\<lambda>time boneKeyframes.
              bindE (positionKeyframeAt fps posTrack time) (\<lambda>kf.
              Inr (AList.update (kf_frameNumber kf) kf boneKeyframes)))
           (rp_times posTrack) []"

text \<open>
  \<^verbatim>\<open>keyframeMap\<close> after the loop over the rotation tracks and the loop over the
  position tracks whose name no rotation track has (lines 126--188).
\<close>

definition keyframeMapOf ::
  "platform \<Rightarrow> real \<Rightarrow> string RetargetedClip
     \<Rightarrow> error + (string \<times> (int \<times> VMDBoneKeyframe) list) list" where
  "keyframeMapOf env fps clip =
     bindE (foldE (\<lambda>track keyframeMap.
                     bindE (boneKeyframesOf env fps clip track) (\<lambda>boneKeyframes.
                     Inr (AList.update (rb_name track) boneKeyframes keyframeMap)))
                  (rc_boneTracks clip) []) (\<lambda>keyframeMap1.
     foldE (\<lambda>posTrack keyframeMap.
              if rp_name posTrack \<notin> set (map rb_name (rc_boneTracks clip)) then
                bindE (positionKeyframesOf fps posTrack) (\<lambda>boneKeyframes.
                Inr (AList.update (rp_name posTrack) boneKeyframes keyframeMap))
              else Inr keyframeMap)
           (rc_positionTracks clip) keyframeMap1)"

text \<open>
  \<^verbatim>\<open>Array.prototype.sort\<close> with a comparator is a stable sort; it is modelled by the
  stable insertion sort, which every stable sort agrees with when the comparator is a
  consistent ordering.
\<close>

fun insertBy :: "('a \<Rightarrow> 'a \<Rightarrow> int) \<Rightarrow> 'a \<Rightarrow> 'a list \<Rightarrow> 'a list" where
  "insertBy cmp v [] = [v]"
| "insertBy cmp v (y # ys) = (if cmp v y < 0 then v # y # ys else y # insertBy cmp v ys)"

definition sortBy :: "('a \<Rightarrow> 'a \<Rightarrow> int) \<Rightarrow> 'a list \<Rightarrow> 'a list" where
  "sortBy cmp xs = foldl (\<lambda>sorted v. insertBy cmp v sorted) [] xs"

definition compareKeyframes :: "platform \<Rightarrow> VMDBoneKeyframe \<Rightarrow> VMDBoneKeyframe \<Rightarrow> int" where
  "compareKeyframes env a b =
     (if kf_frameNumber a \<noteq> kf_frameNumber b then kf_frameNumber a - kf_frameNumber b
      else localeCompare env (kf_boneName a) (kf_boneName b))"

text \<open>The sorted array \<^verbatim>\<open>keyframes\<close> (lines 125--201).\<close>

definition keyframesOf ::
  "platform \<Rightarrow> real \<Rightarrow> string RetargetedClip \<Rightarrow> error + VMDBoneKeyframe list" where
  "keyframesOf env fps clip =
     bindE (keyframeMapOf env fps clip) (\<lambda>keyframeMap.
     Inr (sortBy (compareKeyframes env)
            (concat (map (\<lambda>(name, boneKeyframes). map snd boneKeyframes) keyframeMap))))"

subsection \<open>The blob\<close>

definition ikDisabledBones :: "string list" where
  "ikDisabledBones = [
    [CHR 0xE5, CHR 0x8F, CHR 0xB3, CHR 0xE8, CHR 0xB6, CHR 0xB3, CHR 0x49, CHR 0x4B, CHR 0xE8, CHR 0xA6, CHR 0xAA],
    [CHR 0xE5, CHR 0xB7, CHR 0xA6, CHR 0xE8, CHR 0xB6, CHR 0xB3, CHR 0x49, CHR 0x4B, CHR 0xE8, CHR 0xA6, CHR 0xAA],
    [CHR 0xE5, CHR 0x8F, CHR 0xB3, CHR 0xE8, CHR 0xB6, CHR 0xB3, CHR 0xEF, CHR 0xBC, CHR 0xA9, CHR 0xEF, CHR 0xBC, CHR 0xAB],
    [CHR 0xE5, CHR 0xB7, CHR 0xA6, CHR 0xE8, CHR 0xB6, CHR 0xB3, CHR 0xEF, CHR 0xBC, CHR 0xA9, CHR 0xEF, CHR 0xBC, CHR 0xAB],
    [CHR 0xE5, CHR 0x8F, CHR 0xB3, CHR 0xE3, CHR 0x81, CHR 0xA4, CHR 0xE3, CHR 0x81, CHR 0xBE, CHR 0xE5, CHR 0x85, CHR 0x88, CHR 0xEF, CHR 0xBC, CHR 0xA9, CHR 0xEF, CHR 0xBC, CHR 0xAB],
    [CHR 0xE5, CHR 0xB7, CHR 0xA6, CHR 0xE3, CHR 0x81, CHR 0xA4, CHR 0xE3, CHR 0x81, CHR 0xBE, CHR 0xE5, CHR 0x85, CHR 0x88, CHR 0xEF, CHR 0xBC, CHR 0xA9, CHR 0xEF, CHR 0xBC, CHR 0xAB]
  ]"

definition header :: string where
  "header = ''Vocaloid Motion Data 0002''"

definition writeBoneFrames ::
  "platform \<Rightarrow> VMDBoneKeyframe list \<Rightarrow> byte list \<times> nat \<Rightarrow> error + (byte list \<times> nat)" where
  "writeBoneFrames env keyframes st =
     foldE (\<lambda>keyframe (dataView, offset). writeBoneFrame env dataView offset keyframe)
           keyframes st"

definition writeIkStates ::
  "platform \<Rightarrow> string list \<Rightarrow> byte list \<times> nat \<Rightarrow> error + (byte list \<times> nat)" where
  "writeIkStates env names st =
     foldE (\<lambda>boneName (dataView, offset).
              bindE (setBytes dataView offset (fieldBytes 20 (encodeShiftJIS env boneName))) (\<lambda>dv1.
              bindE (setUint8 dv1 (offset + 20) 0) (\<lambda>dv2.
              Inr (dv2, offset + 20 + 1))))
           names st"

text \<open>
  The second half of \<^verbatim>\<open>convertToVMD\<close> (lines 203--284): the buffer of \<open>totalSize\<close>
  zero bytes is allocated and filled through the \<^verbatim>\<open>DataView\<close>.
\<close>

definition writeVMD :: "platform \<Rightarrow> VMDBoneKeyframe list \<Rightarrow> error + byte list" where
  "writeVMD env keyframes =
     (let hasPropertyKeyframes = (length ikDisabledBones > 0);
          propertyKeyframeSize = 4 + 1 + 4 + (length ikDisabledBones * (20 + 1));
          headerSize = 50;
          boneFrameSize = 111;
          morphFrameCount = 0;
          morphFrameSize = 23;
          cameraFrameCount = 0;
          lightFrameCount = 0;
          selfShadowFrameCount = 0;
          propertyKeyframeCount = (if hasPropertyKeyframes then 1 else 0);
          totalSize = headerSize
            + 4 + (boneFrameSize * length keyframes)
            + 4 + (morphFrameSize * morphFrameCount)
            + 4
            + 4
            + 4
            + 4 + (propertyKeyframeSize * propertyKeyframeCount);
          buffer = replicate totalSize (0 :: byte)
      in bindE (setBytes buffer 0 (fieldBytes 30 (charCodes header))) (\<lambda>dv1.
         bindE (setBytes dv1 30 (replicate 20 0)) (\<lambda>dv2.
         bindE (setUint32 dv2 50 (of_nat (length keyframes))) (\<lambda>dv3.
         bindE (writeBoneFrames env keyframes (dv3, 54)) (\<lambda>(dv4, offset).
         bindE (setUint32 dv4 offset (of_nat morphFrameCount)) (\<lambda>dv5.
         bindE (setUint32 dv5 (offset + 4) (of_nat cameraFrameCount)) (\<lambda>dv6.
         bindE (setUint32 dv6 (offset + 8) (of_nat lightFrameCount)) (\<lambda>dv7.
         bindE (setUint32 dv7 (offset + 12) (of_nat selfShadowFrameCount)) (\<lambda>dv8.
         bindE (setUint32 dv8 (offset + 16) (of_nat propertyKeyframeCount)) (\<lambda>dv9.
         if hasPropertyKeyframes then
           bindE (setUint32 dv9 (offset + 20) 0) (\<lambda>dv10.
           bindE (setUint8 dv10 (offset + 24) 1) (\<lambda>dv11.
           bindE (setUint32 dv11 (offset + 25) (of_nat (length ikDisabledBones))) (\<lambda>dv12.
           bindE (writeIkStates env ikDisabledBones (dv12, offset + 29)) (\<lambda>(dv13, offset').
           Inr dv13))))
         else Inr dv9))))))))))"

text \<open>
  \<^verbatim>\<open>convertToVMD(clip, fps)\<close>: the contents of the returned blob.  A clip without any
  track time returns the empty \<^verbatim>\<open>new Blob()\<close> before anything is built.
\<close>

definition convertToVMD :: "platform \<Rightarrow> string RetargetedClip \<Rightarrow> real \<Rightarrow> error + byte list" where
  "convertToVMD env clip fps =
     (let sortedTimes = sort (remdups (concat (map rb_times (rc_boneTracks clip))
                                        @ concat (map rp_times (rc_positionTracks clip))))
      in if length sortedTimes = 0 then Inr []
         else bindE (keyframesOf env fps clip) (\<lambda>keyframes. writeVMD env keyframes))"


subsection \<open>The layout of the blob, in the words of the format\<close>

text \<open>
  A track is well formed when it has at least one key and one value per key time, as
  every track of the extractor has; a keyframe is complete when neither its position nor
  its rotation is \<^verbatim>\<open>undefined\<close>.
\<close>

definition wfClip :: "string RetargetedClip \<Rightarrow> bool" where
  "wfClip clip =
     ((\<forall>track \<in> set (rc_boneTracks clip).
         rb_times track \<noteq> [] \<and> length (rb_quats track) = length (rb_times track))
      \<and> (\<forall>track \<in> set (rc_positionTracks clip).
         rp_times track \<noteq> [] \<and> length (rp_positions track) = length (rp_times track)))"

definition complete :: "VMDBoneKeyframe \<Rightarrow> bool" where
  "complete kf = (kf_position kf \<noteq> None \<and> kf_rotation kf \<noteq> None)"

text \<open>
  The 111-byte bone-frame record: 15 bytes of name, the frame index, three floats of
  position, four floats of rotation, 64 bytes of value 20.
\<close>

definition boneFrameRecord :: "platform \<Rightarrow> string \<Rightarrow> int \<Rightarrow> nvec3 \<Rightarrow> nquat \<Rightarrow> byte list" where
  "boneFrameRecord env name frame p r =
     fieldBytes 15 (encodeShiftJIS env name)
     @ le32 (word_of_int frame)
     @ le32 (float32Bits env (nvx p)) @ le32 (float32Bits env (nvy p)) @ le32 (float32Bits env (nvz p))
     @ le32 (float32Bits env (nqx r)) @ le32 (float32Bits env (nqy r))
     @ le32 (float32Bits env (nqz r)) @ le32 (float32Bits env (nqw r))
     @ replicate 64 20"

definition keyframeRecord :: "platform \<Rightarrow> VMDBoneKeyframe \<Rightarrow> byte list" where
  "keyframeRecord env kf =
     (case (kf_position kf, kf_rotation kf) of
        (Some p, Some r) \<Rightarrow>
          boneFrameRecord env (kf_boneName kf) (kf_frameNumber kf)
            (writtenPosition p) (writtenRotation r)
      | _ \<Rightarrow> [])"

text \<open>
  The property keyframe: frame 0, visibility 1, the number of IK entries, and per entry
  a 20-byte name and the state byte 0 (IK off).
\<close>

definition propertyKeyframe :: "platform \<Rightarrow> byte list" where
  "propertyKeyframe env =
     le32 0 @ [1] @ le32 6
     @ concat (map (\<lambda>boneName. fieldBytes 20 (encodeShiftJIS env boneName) @ [0]) ikDisabledBones)"

definition vmdLayout :: "platform \<Rightarrow> VMDBoneKeyframe list \<Rightarrow> byte list" where
  "vmdLayout env keyframes =
     fieldBytes 30 (charCodes header) @ replicate 20 0
     @ le32 (of_nat (length keyframes))
     @ concat (map (keyframeRecord env) keyframes)
     @ le32 0 @ le32 0 @ le32 0 @ le32 0
     @ le32 1 @ propertyKeyframe env"

text \<open>\<open>overwrite buf off bs\<close> is the buffer \<open>buf\<close> with the bytes \<open>bs\<close> stored from \<open>off\<close> on.\<close>

definition overwrite :: "byte list \<Rightarrow> nat \<Rightarrow> byte list \<Rightarrow> byte list" where
  "overwrite buf off bs = take off buf @ bs @ drop (off + length bs) buf"

text \<open>
  An instance of the platform parameters, used where a statement is to be evaluated at
  a concrete input: it encodes a name by its character codes (which is Shift-JIS on
  ASCII letters and digits) and stores the float \<open>1\<close> as \<open>0x3F800000\<close>, \<open>0\<close> as zero.
\<close>

definition samplePlatform :: platform where
  "samplePlatform =
     \<lparr>encodeShiftJIS = charCodes,
      float32Bits = (\<lambda>v. if v = Finite 1 then 0x3F800000 else 0),
      localeCompare = (\<lambda>a b. 0),
      normalize = (\<lambda>q. q)\<rparr>"

subsection \<open>Auxiliary notions for the statements about the writer\<close>




definition allComplete :: "(string \<times> (int \<times> VMDBoneKeyframe) list) list \<Rightarrow> bool" where
  "allComplete M = (\<forall>(name, m) \<in> set M. \<forall>(f, kf) \<in> set m. complete kf)"

definition completeMap :: "(int \<times> VMDBoneKeyframe) list \<Rightarrow> bool" where
  "completeMap m = (\<forall>(f, kf) \<in> set m. complete kf)"


text \<open>All key times of a clip, rotation tracks first (the elements of \<^verbatim>\<open>allTimes\<close>).\<close>

definition clipTimes :: "string RetargetedClip \<Rightarrow> real list" where
  "clipTimes clip = concat (map rb_times (rc_boneTracks clip))
                    @ concat (map rp_times (rc_positionTracks clip))"

text \<open>
  A clip of one bone with two keys that both round to frame 0 at 30 frames per second,
  and the clip without tracks.
\<close>

definition sampleTrack :: "string RetargetedBoneTrack" where
  "sampleTrack = \<lparr>rb_name = ''Bone'', rb_originalName = ''Bone'',
                   rb_times = [0, 0.01], rb_quats = [Quat 0 0 0 1, Quat 1 0 0 0]\<rparr>"

definition sampleClip :: "string RetargetedClip" where
  "sampleClip = \<lparr>rc_name = ''clip'', rc_duration = 0.01, rc_fps = 30,
                  rc_boneTracks = [sampleTrack], rc_positionTracks = []\<rparr>"

definition emptyClip :: "string RetargetedClip" where
  "emptyClip = \<lparr>rc_name = ''clip'', rc_duration = 0, rc_fps = 30,
                 rc_boneTracks = [], rc_positionTracks = []\<rparr>"


text \<open>A keyframe with non-finite components in its position and its rotation.\<close>

definition nanKeyframe :: VMDBoneKeyframe where
  "nanKeyframe = \<lparr>kf_boneName = ''Bone'', kf_frameNumber = 0,
      kf_position = Some (NVec3 PosInfinity (Finite 1) NaN),
      kf_rotation = Some (NQuat NaN (Finite 1) (Finite 0) (Finite 0))\<rparr>"


text \<open>
  A bone that has a position track only, with two keys that both round to frame 0 at 30
  frames per second: once with ascending key times, once with the later time first.
\<close>

definition positionOnlyTrack :: "string RetargetedPositionTrack" where
  "positionOnlyTrack = \<lparr>rp_name = ''Bone'', rp_originalName = ''Bone'',
                         rp_times = [0, 0.01], rp_positions = [Vec3 1 0 0, Vec3 2 0 0]\<rparr>"

definition positionOnlyClip :: "string RetargetedClip" where
  "positionOnlyClip = \<lparr>rc_name = ''clip'', rc_duration = 0.01, rc_fps = 30,
                        rc_boneTracks = [], rc_positionTracks = [positionOnlyTrack]\<rparr>"



section \<open>The binary node reader: string properties (\<^verbatim>\<open>lib/fbx.ts\<close>)\<close>

text \<open>
  \<^verbatim>\<open>BinaryReader\<close> holds the bytes and the read offset.  \<^verbatim>\<open>readUint8Array\<close> slices,
  so it clamps at the end of the bytes; \<^verbatim>\<open>readUint32\<close> goes through a \<^verbatim>\<open>DataView\<close> of
  four bytes, whose construction fails with a \<open>RangeError\<close> beyond the end.
\<close>

record BinaryReader =
  br_binary :: "byte list"
  br_offset :: nat

definition readUint8Array :: "BinaryReader \<Rightarrow> nat \<Rightarrow> byte list \<times> BinaryReader" where
  "readUint8Array data len =
     (take len (drop (br_offset data) (br_binary data)), data\<lparr>br_offset := br_offset data + len\<rparr>)"

definition uint32le :: "byte list \<Rightarrow> 32 word" where
  "uint32le bs =
     ucast (bs ! 0) OR push_bit 8 (ucast (bs ! 1)) OR push_bit 16 (ucast (bs ! 2))
     OR push_bit 24 (ucast (bs ! 3))"

definition readUint32 :: "BinaryReader \<Rightarrow> error + (32 word \<times> BinaryReader)" where
  "readUint32 data =
     (if br_offset data + 4 \<le> length (br_binary data)
      then Inr (uint32le (take 4 (drop (br_offset data) (br_binary data))),
                data\<lparr>br_offset := br_offset data + 4\<rparr>)
      else Inl RangeError)"

text \<open>
  \<^verbatim>\<open>readArrayAsString\<close>: the bytes up to the first NUL byte (all of them when there is
  none) are decoded.  The decoder is \<^verbatim>\<open>TextDecoder\<close> of the platform, a parameter of
  the model.
\<close>

definition readArrayAsString ::
  "(byte list \<Rightarrow> string) \<Rightarrow> BinaryReader \<Rightarrow> nat \<Rightarrow> string \<times> BinaryReader" where
  "readArrayAsString decode data len =
     (let (bytes, data') = readUint8Array data len;
          nullIndex = (case findIndex (\<lambda>b. b = 0) bytes of Some i \<Rightarrow> i | None \<Rightarrow> length bytes)
      in (decode (take nullIndex bytes), data'))"

text \<open>
  \<^verbatim>\<open>value.indexOf('\x00\x01') !== -1\<close> and
  \<^verbatim>\<open>value.split('\x00\x01').reverse().join('::')\<close> on strings.
\<close>

fun hasSentinel :: "string \<Rightarrow> bool" where
  "hasSentinel (a # b # rest) = ((a = CHR 0x00 \<and> b = CHR 0x01) \<or> hasSentinel (b # rest))"
| "hasSentinel _ = False"

fun splitSentinel :: "string \<Rightarrow> string \<Rightarrow> string list" where
  "splitSentinel piece (a # b # rest) =
     (if a = CHR 0x00 \<and> b = CHR 0x01 then piece # splitSentinel [] rest
      else splitSentinel (piece @ [a]) (b # rest))"
| "splitSentinel piece rest = [piece @ rest]"

fun joinWith :: "string \<Rightarrow> string list \<Rightarrow> string" where
  "joinWith sep [] = []"
| "joinWith sep [s] = s"
| "joinWith sep (s # ss) = s @ sep @ joinWith sep ss"

text \<open>
  The arm \<^verbatim>\<open>case 'S'\<close> of \<^verbatim>\<open>readProperty\<close> (lines 1164--1170), entered after the type
  code is read: the length, the string, and the swap of a qualified name.
\<close>

definition readPropertyS ::
  "(byte list \<Rightarrow> string) \<Rightarrow> BinaryReader \<Rightarrow> error + (string \<times> BinaryReader)" where
  "readPropertyS decode data =
     (case readUint32 data of
        Inl e \<Rightarrow> Inl e
      | Inr (len, data1) \<Rightarrow>
          (let (v, data2) = readArrayAsString decode data1 (unat len)
           in if hasSentinel v
              then Inr (joinWith ''::'' (rev (splitSentinel [] v)), data2)
              else Inr (v, data2)))"

text \<open>
  The decoder on bytes below \<open>0x80\<close>, where UTF-8 is ASCII, and a string property as it
  stands in a file: the type code \<open>S\<close>, the length 4, and the bytes \<open>A\<close>, \<open>00\<close>,
  \<open>01\<close>, \<open>B\<close>.
\<close>

definition asciiDecode :: "byte list \<Rightarrow> string" where
  "asciiDecode bs = map (\<lambda>b. char_of (unat b)) bs"

definition qualifiedNameProperty :: "byte list" where
  "qualifiedNameProperty = [0x53, 4, 0, 0, 0, 0x41, 0x00, 0x01, 0x42]"

section \<open>Properties of the retargeter\<close>

subsection \<open>The table of precomputed transforms\<close>

lemma fold_transforms_lookup:
  "map_of (fold (\<lambda>(n, _) tbl. case transformOf n of None \<Rightarrow> tbl
                               | Some t \<Rightarrow> AList.update n t tbl) xs acc) k
   = (if k \<in> fst ` set xs
      then (case transformOf k of None \<Rightarrow> map_of acc k | Some t \<Rightarrow> Some t)
      else map_of acc k)"
  by (induction xs arbitrary: acc) (auto simp: update_conv' split: option.splits)

lemma RETARGET_TRANSFORMS_eq:
  "RETARGET_TRANSFORMS k = (if k \<in> fst ` set BONE_MAP then transformOf k else None)"
  unfolding RETARGET_TRANSFORMS_def computeRetargetTransforms_def fold_transforms_lookup
  by (simp split: option.splits)

lemma q_l_of_transform:
  "n \<in> fst ` set BONE_MAP \<Longrightarrow> map_of MIXAMO_MATRIX_LOCAL n = Some q_a \<Longrightarrow>
   map_option q_l (RETARGET_TRANSFORMS n) =
     Some (if n \<in> set ROTATE_WBA_L_SET then multiply Q_ARM_R q_a
           else if n \<in> set ROTATE_WBA_R_SET then multiply Q_ARM_L q_a else q_a)"
  by (simp add: RETARGET_TRANSFORMS_eq transformOf_def Let_def)

lemma fst_mapBoneName:
  "fst (mapBoneName n) = (case matchMixamorig n of Some g \<Rightarrow> g | None \<Rightarrow> n)"
  by (simp add: mapBoneName_def Let_def)

lemma unmapped_names:
  "''Tail'' \<notin> fst ` set BONE_MAP" "''Root'' \<notin> fst ` set BONE_MAP"
  by code_simp+

lemma match_examples:
  "matchMixamorig ''mixamorig:Tail'' = Some ''Tail''"
  "matchMixamorig ''mixamorig:Hips'' = Some ''Hips''"
  "matchMixamorig ''Hips'' = None"
  "matchMixamorig ''Root'' = None"
  by code_simp+

lemma Hips_facts:
  "''Hips'' \<in> fst ` set BONE_MAP \<and> ''Hips'' \<notin> set ROTATE_WBA_L_SET
   \<and> ''Hips'' \<notin> set ROTATE_WBA_R_SET
   \<and> map_of MIXAMO_MATRIX_LOCAL ''Hips'' = Some (Quat 0.0065 0 0 0.99998)"
  by code_simp

lemma q_l_Hips: "map_option q_l (RETARGET_TRANSFORMS ''Hips'') = Some (Quat 0.0065 0 0 0.99998)"
  using Hips_facts q_l_of_transform [of "''Hips''" "Quat 0.0065 0 0 0.99998"] by simp

lemma WBA_L_facts:
  "\<forall>n \<in> set ROTATE_WBA_L_SET.
     n \<in> fst ` set BONE_MAP \<and> map_of MIXAMO_MATRIX_LOCAL n = Some (Quat 0.5 0.5 (- 0.5) 0.5)"
  by code_simp

lemma WBA_R_facts:
  "\<forall>n \<in> set ROTATE_WBA_R_SET.
     n \<in> fst ` set BONE_MAP \<and> n \<notin> set ROTATE_WBA_L_SET
     \<and> map_of MIXAMO_MATRIX_LOCAL n = Some (Quat 0.5 (- 0.5) 0.5 0.5)"
  by code_simp

lemma arm_facts:
  "''LeftArm'' \<in> fst ` set BONE_MAP \<and> ''LeftArm'' \<notin> set ROTATE_WBA_L_SET
   \<and> ''LeftArm'' \<notin> set ROTATE_WBA_R_SET
   \<and> map_of MIXAMO_MATRIX_LOCAL ''LeftArm'' = Some (Quat 0.5 0.5 (- 0.5) 0.5)"
  "''RightArm'' \<in> fst ` set BONE_MAP \<and> ''RightArm'' \<notin> set ROTATE_WBA_L_SET
   \<and> ''RightArm'' \<notin> set ROTATE_WBA_R_SET
   \<and> map_of MIXAMO_MATRIX_LOCAL ''RightArm'' = Some (Quat 0.5 (- 0.5) 0.5 0.5)"
  by code_simp+

lemma Q_ARM_rotZ: "Q_ARM_L = rotZ 35" "Q_ARM_R = rotZ (- 35)"
  by (simp_all add: Q_ARM_L_def Q_ARM_R_def rotZ_def ARM_ANGLE_def)

lemma sin_arm_pos: "0 < sin (35 * pi / 180 / 2)"
  by (rule sin_gt_zero) (simp_all add: pi_gt_zero)

lemma witness_members:
  "''LeftHandIndex2'' \<in> set ROTATE_WBA_L_SET" "''RightForeArm'' \<in> set ROTATE_WBA_R_SET"
  "map_of MIXAMO_MATRIX_LOCAL ''LeftHandIndex2'' = Some (Quat 0.5 0.5 (- 0.5) 0.5)"
  "map_of MIXAMO_MATRIX_LOCAL ''RightForeArm'' = Some (Quat 0.5 (- 0.5) 0.5 0.5)"
  "map_of MIXAMO_MATRIX_LOCAL ''RightArm'' = Some (Quat 0.5 (- 0.5) 0.5 0.5)"
  by code_simp+

subsection \<open>Bones without a transform\<close>

lemma BONE_MAP_keys_own: "\<forall>k \<in> fst ` set BONE_MAP. k \<notin> set objectPrototypeMembers"
  by code_simp

lemma objectGet_None:
  "obj key = None \<Longrightarrow>
     objectGet obj key = (if key \<in> set objectPrototypeMembers then Inherited else Undefined)"
  by (simp add: objectGet_def)

lemma flipZW_flipZW: "flipZW (flipZW q) = q"
  by (cases q) (simp add: flipZW_def)

lemma mapE_Inr:
  "(\<And>x. x \<in> set xs \<Longrightarrow> f x = Inr (g x)) \<Longrightarrow> mapE f xs = Inr (map g xs)"
  by (induction xs) (simp_all add: bindE_def)

text \<open>
  A bone track whose stripped name the table of transforms does not know, neither as an
  own property nor as an inherited member, is retargeted by flipping the signs of the Z
  and W components of every quaternion.
\<close>

lemma retargetBoneTrack_undefined:
  assumes "objectGet RETARGET_TRANSFORMS (fst (mapBoneName (bt_name track))) = Undefined"
  shows "\<exists>r. retargetBoneTrack track = Inr r \<and> rb_quats r = map flipZW (bt_quats track)"
proof -
  have "mapE (retargetQuat Undefined) (bt_quats track) = Inr (map flipZW (bt_quats track))"
    by (rule mapE_Inr) (simp add: retargetQuat_def flipZW_def)
  with assms show ?thesis
    by (simp add: retargetBoneTrack_def split_beta Let_def bindE_def)
qed

lemma constructor_facts:
  "matchMixamorig ''mixamorig:constructor'' = Some ''constructor''"
  "''constructor'' \<notin> fst ` set BONE_MAP"
  "''constructor'' \<in> set objectPrototypeMembers"
  "''Tail'' \<notin> set objectPrototypeMembers"
  by code_simp+

lemma transforms_unknown:
  "RETARGET_TRANSFORMS ''constructor'' = None" "RETARGET_TRANSFORMS ''Tail'' = None"
  by (simp_all add: RETARGET_TRANSFORMS_eq constructor_facts unmapped_names)

text \<open>
  Claim C3, at a name that every object inherits.  The table has no precomputed transform
  for \<^verbatim>\<open>constructor\<close>, and the track of the bone \<^verbatim>\<open>mixamorig:constructor\<close> is not
  retargeted by the flip: the read of the table finds the inherited member, the test
  \<^verbatim>\<open>!transform\<close> fails, and the retargeter ends with a \<open>TypeError\<close>.  The same track
  under the name \<^verbatim>\<open>mixamorig:Tail\<close> is retargeted to \<open>(x, y, \<minus>z, \<minus>w)\<close>, and the flip
  applied twice gives back the quaternion it started from.
\<close>

theorem C3_inherited_name_throws:
  "RETARGET_TRANSFORMS (fst (mapBoneName (bt_name constructorTrack))) = None
   \<and> retargetBoneTrack constructorTrack = Inl TypeError
   \<and> RETARGET_TRANSFORMS (fst (mapBoneName (bt_name tailTrack))) = None
   \<and> retargetBoneTrack tailTrack
       = Inr \<lparr>rb_name = Name ''Tail'', rb_originalName = ''mixamorig:Tail'',
              rb_times = [0], rb_quats = [Quat 1 2 (- 3) (- 4)]\<rparr>
   \<and> flipZW (flipZW (Quat 1 2 3 4)) = Quat 1 2 3 4"
proof -
  have n: "fst (mapBoneName ''mixamorig:constructor'') = ''constructor''"
    "fst (mapBoneName ''mixamorig:Tail'') = ''Tail''"
    by (simp_all add: fst_mapBoneName constructor_facts match_examples)
  have g: "objectGet RETARGET_TRANSFORMS ''constructor'' = Inherited"
    "objectGet RETARGET_TRANSFORMS ''Tail'' = Undefined"
    by (simp_all add: objectGet_None transforms_unknown constructor_facts)
  have mb: "map_of BONE_MAP ''Tail'' = None"
    by (rule iffD2 [OF map_of_eq_None_iff unmapped_names(1)])
  have m: "snd (mapBoneName ''mixamorig:Tail'') = Name ''Tail''"
    by (simp add: mapBoneName_def Let_def match_examples objectGet_def mb constructor_facts)
  have c: "retargetBoneTrack constructorTrack = Inl TypeError"
    by (simp add: retargetBoneTrack_def constructorTrack_def split_beta Let_def n g
        retargetQuat_def bindE_def)
  have t: "retargetBoneTrack tailTrack
       = Inr \<lparr>rb_name = Name ''Tail'', rb_originalName = ''mixamorig:Tail'',
              rb_times = [0], rb_quats = [Quat 1 2 (- 3) (- 4)]\<rparr>"
    by (simp add: retargetBoneTrack_def tailTrack_def split_beta Let_def n g m
        retargetQuat_def bindE_def)
  show ?thesis
    using c t by (simp add: constructorTrack_def tailTrack_def n transforms_unknown flipZW_def)
qed

subsection \<open>The arm adjustment\<close>

text \<open>
  Claim C4, as the code has it.  The left transform \<open>q_l\<close> is \<open>rot(Z, \<minus>35\<degree>) \<cdot> q_a\<close> for the
  bones of \<^verbatim>\<open>ROTATE_WBA_L_SET\<close>, which are the left forearm and the fifteen left-hand
  finger bones, and \<open>rot(Z, +35\<degree>) \<cdot> q_a\<close> for the bones of \<^verbatim>\<open>ROTATE_WBA_R_SET\<close>, the
  right forearm and the right-hand finger bones, where \<open>q_a\<close> is the bone's rest
  quaternion.  The left and the right arm themselves keep \<open>q_l = q_a\<close>.
\<close>

theorem C4_forearm_and_fingers:
  "(\<forall>n \<in> set ROTATE_WBA_L_SET.
      \<exists>q_a. map_of MIXAMO_MATRIX_LOCAL n = Some q_a
          \<and> map_option q_l (RETARGET_TRANSFORMS n) = Some (multiply (rotZ (- 35)) q_a))
   \<and> (\<forall>n \<in> set ROTATE_WBA_R_SET.
      \<exists>q_a. map_of MIXAMO_MATRIX_LOCAL n = Some q_a
          \<and> map_option q_l (RETARGET_TRANSFORMS n) = Some (multiply (rotZ 35) q_a))
   \<and> (\<forall>n \<in> {''LeftArm'', ''RightArm''}.
      \<exists>q_a. map_of MIXAMO_MATRIX_LOCAL n = Some q_a
          \<and> map_option q_l (RETARGET_TRANSFORMS n) = Some q_a)"
proof (intro conjI ballI)
  fix n assume n: "n \<in> set ROTATE_WBA_L_SET"
  with WBA_L_facts have "n \<in> fst ` set BONE_MAP"
    and "map_of MIXAMO_MATRIX_LOCAL n = Some (Quat 0.5 0.5 (- 0.5) 0.5)"
    by blast+
  with n q_l_of_transform [of n "Quat 0.5 0.5 (- 0.5) 0.5"]
  show "\<exists>q_a. map_of MIXAMO_MATRIX_LOCAL n = Some q_a
          \<and> map_option q_l (RETARGET_TRANSFORMS n) = Some (multiply (rotZ (- 35)) q_a)"
    by (simp add: Q_ARM_rotZ)
next
  fix n assume n: "n \<in> set ROTATE_WBA_R_SET"
  with WBA_R_facts have "n \<in> fst ` set BONE_MAP" and "n \<notin> set ROTATE_WBA_L_SET"
    and "map_of MIXAMO_MATRIX_LOCAL n = Some (Quat 0.5 (- 0.5) 0.5 0.5)"
    by blast+
  with n q_l_of_transform [of n "Quat 0.5 (- 0.5) 0.5 0.5"]
  show "\<exists>q_a. map_of MIXAMO_MATRIX_LOCAL n = Some q_a
          \<and> map_option q_l (RETARGET_TRANSFORMS n) = Some (multiply (rotZ 35) q_a)"
    by (simp add: Q_ARM_rotZ)
next
  fix n :: string assume "n \<in> {''LeftArm'', ''RightArm''}"
  then consider "n = ''LeftArm''" | "n = ''RightArm''" by blast
  then show "\<exists>q_a. map_of MIXAMO_MATRIX_LOCAL n = Some q_a
          \<and> map_option q_l (RETARGET_TRANSFORMS n) = Some q_a"
  proof cases
    case 1
    with arm_facts(1) q_l_of_transform [of n "Quat 0.5 0.5 (- 0.5) 0.5"] show ?thesis
      by simp
  next
    case 2
    with arm_facts(2) q_l_of_transform [of n "Quat 0.5 (- 0.5) 0.5 0.5"] show ?thesis
      by simp
  qed
qed

theorem C4_forearm_and_fingers_witness:
  "''LeftHandIndex2'' \<in> set ROTATE_WBA_L_SET
   \<and> ''RightForeArm'' \<in> set ROTATE_WBA_R_SET
   \<and> ''RightArm'' \<in> {''LeftArm'', ''RightArm''}
   \<and> map_option q_l (RETARGET_TRANSFORMS ''LeftHandIndex2'')
       = Some (multiply (rotZ (- 35)) (Quat 0.5 0.5 (- 0.5) 0.5))
   \<and> map_option q_l (RETARGET_TRANSFORMS ''RightForeArm'')
       = Some (multiply (rotZ 35) (Quat 0.5 (- 0.5) 0.5 0.5))
   \<and> map_option q_l (RETARGET_TRANSFORMS ''RightArm'') = Some (Quat 0.5 (- 0.5) 0.5 0.5)"
proof -
  have m3: "''RightArm'' \<in> {''LeftArm'', ''RightArm''}"
    by simp
  from C4_forearm_and_fingers
  have a: "\<exists>q_a. map_of MIXAMO_MATRIX_LOCAL ''LeftHandIndex2'' = Some q_a
          \<and> map_option q_l (RETARGET_TRANSFORMS ''LeftHandIndex2'') = Some (multiply (rotZ (- 35)) q_a)"
    and b: "\<exists>q_a. map_of MIXAMO_MATRIX_LOCAL ''RightForeArm'' = Some q_a
          \<and> map_option q_l (RETARGET_TRANSFORMS ''RightForeArm'') = Some (multiply (rotZ 35) q_a)"
    and c: "\<exists>q_a. map_of MIXAMO_MATRIX_LOCAL ''RightArm'' = Some q_a
          \<and> map_option q_l (RETARGET_TRANSFORMS ''RightArm'') = Some q_a"
    using witness_members(1,2) m3 by blast+
  from a b c witness_members m3 show ?thesis
    by (simp del: set_simps insert_iff)
qed

text \<open>
  The left arm is not in \<^verbatim>\<open>ROTATE_WBA_L_SET\<close>: its left transform is its rest quaternion
  \<open>(0.5, 0.5, \<minus>0.5, 0.5)\<close>, which differs from \<open>rot(Z, \<minus>35\<degree>) \<cdot> q_a\<close>.
\<close>

theorem C4_left_arm_counterexample:
  "map_of MIXAMO_MATRIX_LOCAL ''LeftArm'' = Some (Quat 0.5 0.5 (- 0.5) 0.5)
   \<and> map_option q_l (RETARGET_TRANSFORMS ''LeftArm'') = Some (Quat 0.5 0.5 (- 0.5) 0.5)
   \<and> Quat 0.5 0.5 (- 0.5) 0.5 \<noteq> multiply (rotZ (- 35)) (Quat 0.5 0.5 (- 0.5) 0.5)"
proof -
  have a: "map_of MIXAMO_MATRIX_LOCAL ''LeftArm'' = Some (Quat 0.5 0.5 (- 0.5) 0.5)"
    using arm_facts(1) by simp
  have b: "map_option q_l (RETARGET_TRANSFORMS ''LeftArm'') = Some (Quat 0.5 0.5 (- 0.5) 0.5)"
    using arm_facts(1) q_l_of_transform [of "''LeftArm''" "Quat 0.5 0.5 (- 0.5) 0.5"] by simp
  have c: "Quat 0.5 0.5 (- 0.5) 0.5 \<noteq> multiply (rotZ (- 35)) (Quat 0.5 0.5 (- 0.5) 0.5)"
    using sin_arm_pos
    by (simp add: multiply_def rotZ_def fromAxisAngle_def Let_def)
  show ?thesis using a b c by simp
qed

subsection \<open>The hips position sample\<close>

lemma retargetPositionTrack_positions:
  "rp_positions (retargetPositionTrack track) =
     map (retargetPosition
            (case RETARGET_TRANSFORMS (fst (mapBoneName (pt_name track))) of
               Some tr \<Rightarrow> q_l tr | None \<Rightarrow> identity))
         (pt_positions track)"
  by (simp add: retargetPositionTrack_def split_beta Let_def objectGet_def split: option.splits)

lemma retargetPosition_sample_identity:
  "retargetPosition identity [0, 100, 0] = Vec3 0 (- 0.3) 0"
  by (simp add: retargetPosition_def identity_def POSITION_SCALE_def POSITION_OFFSET_Y_def)

lemma retargetPosition_sample_Hips:
  "retargetPosition (Quat 0.0065 0 0 0.99998) [0, 100, 0] = Vec3 0 (- 0.300676) (- 0.10399792)"
  by (simp add: retargetPosition_def POSITION_SCALE_def POSITION_OFFSET_Y_def)

lemma q_l_Hips_case:
  "(case RETARGET_TRANSFORMS ''Hips'' of Some tr \<Rightarrow> q_l tr | None \<Rightarrow> identity)
     = Quat 0.0065 0 0 0.99998"
  using q_l_Hips by (cases "RETARGET_TRANSFORMS ''Hips''") simp_all

text \<open>
  Claim C5, as the code has it.  The position sample \<open>(0, 100, 0)\<close> of a bone that has no
  precomputed transform is rotated by the identity, scaled by \<open>1/12.5\<close>, offset by \<open>\<minus>8.3\<close>
  in Y and Z-flipped, which gives \<open>(0, \<minus>0.3, 0)\<close>.  The hips bone has a transform: its
  \<open>q_l\<close> is the rest quaternion \<open>(0.0065, 0, 0, 0.99998)\<close>, and the same sample is
  retargeted to \<open>(0, \<minus>0.300676, \<minus>0.10399792)\<close>.
\<close>

theorem C5_position_sample:
  "(RETARGET_TRANSFORMS (fst (mapBoneName (pt_name track))) = None
      \<and> pt_positions track = [ [0, 100, 0] ]
      \<longrightarrow> rp_positions (retargetPositionTrack track) = [Vec3 0 (- 0.3) 0])
   \<and> (pt_name track \<in> {''Hips'', ''mixamorig:Hips''}
      \<and> pt_positions track = [ [0, 100, 0] ]
      \<longrightarrow> rp_positions (retargetPositionTrack track) = [Vec3 0 (- 0.300676) (- 0.10399792)])"
proof (intro conjI impI)
  assume "RETARGET_TRANSFORMS (fst (mapBoneName (pt_name track))) = None
      \<and> pt_positions track = [ [0, 100, 0] ]"
  with retargetPosition_sample_identity
  show "rp_positions (retargetPositionTrack track) = [Vec3 0 (- 0.3) 0]"
    by (simp add: retargetPositionTrack_positions)
next
  assume a: "pt_name track \<in> {''Hips'', ''mixamorig:Hips''}
      \<and> pt_positions track = [ [0, 100, 0] ]"
  then have "fst (mapBoneName (pt_name track)) = ''Hips''"
    by (auto simp add: fst_mapBoneName match_examples)
  with a retargetPosition_sample_Hips q_l_Hips_case
  show "rp_positions (retargetPositionTrack track) = [Vec3 0 (- 0.300676) (- 0.10399792)]"
    by (simp add: retargetPositionTrack_positions)
qed

theorem C5_position_sample_witness:
  "RETARGET_TRANSFORMS (fst (mapBoneName ''Root'')) = None
   \<and> rp_positions (retargetPositionTrack \<lparr>pt_name = ''Root'', pt_original_name = ''Root'',
        pt_times = [0], pt_positions = [ [0, 100, 0] ]\<rparr>) = [Vec3 0 (- 0.3) 0]
   \<and> rp_positions (retargetPositionTrack \<lparr>pt_name = ''Hips'', pt_original_name = ''Hips'',
        pt_times = [0], pt_positions = [ [0, 100, 0] ]\<rparr>) = [Vec3 0 (- 0.300676) (- 0.10399792)]"
proof -
  have h: "RETARGET_TRANSFORMS (fst (mapBoneName ''Root'')) = None"
    by (simp add: fst_mapBoneName match_examples RETARGET_TRANSFORMS_eq unmapped_names)
  show ?thesis
    using h
      C5_position_sample [of "\<lparr>pt_name = ''Root'', pt_original_name = ''Root'',
        pt_times = [0], pt_positions = [ [0, 100, 0] ]\<rparr>"]
      C5_position_sample [of "\<lparr>pt_name = ''Hips'', pt_original_name = ''Hips'',
        pt_times = [0], pt_positions = [ [0, 100, 0] ]\<rparr>"]
    by simp
qed

text \<open>
  The hips sample of the claim, on the track of the bone \<^verbatim>\<open>mixamorig:Hips\<close>: the result
  is not \<open>(0, \<minus>0.3, 0)\<close>.
\<close>

theorem C5_hips_counterexample:
  "rp_positions (retargetPositionTrack \<lparr>pt_name = ''mixamorig:Hips'',
        pt_original_name = ''mixamorig:Hips'',
        pt_times = [0], pt_positions = [ [0, 100, 0] ]\<rparr>) \<noteq> [Vec3 0 (- 0.3) 0]"
  using retargetPosition_sample_Hips q_l_Hips_case
  by (simp add: retargetPositionTrack_positions fst_mapBoneName match_examples)

section \<open>Properties of the rotation assembler\<close>

subsection \<open>Arithmetic of finite numbers\<close>

lemma minus_Finite [simp]: "Finite a - Finite b = Finite (a - b)"
  by (simp add: minus_number_def)

lemma isFinite_iff: "isFinite v \<longleftrightarrow> (\<exists>r. v = Finite r)"
  by (cases v) (simp_all add: isFinite_def)

lemma isFinite_Finite [simp]: "isFinite (Finite r)"
  by (simp add: isFinite_def)

lemma isNaN_simps [simp]:
  "isNaN NaN" "\<not> isNaN (Finite r)" "\<not> isNaN PosInfinity" "\<not> isNaN NegInfinity"
  by (simp_all add: isNaN_def)

lemma notInfinite_cases: "notInfinite v \<longleftrightarrow> v = NaN \<or> (\<exists>r. v = Finite r)"
  by (cases v) (simp_all add: notInfinite_def)



lemma degToRad_Finite [simp]: "degToRad (Finite a) = Finite (a * pi / 180)"
  by (simp add: degToRad_def Math_PI_def)

subsection \<open>Linear interpolation divides by a positive difference\<close>

lemma surrounding_distinct_pair:
  assumes "t0 < targetTime" and "surrounding (t0 # ts) (v0 # vs) targetTime = Some v"
  shows "\<exists>a b va vb. a < b \<and> a \<le> targetTime \<and> targetTime \<le> b
           \<and> v = va + (vb - va) * Finite ((targetTime - a) / (b - a))"
  using assms
proof (induction ts arbitrary: t0 v0 vs)
  case Nil
  then show ?case by simp
next
  case (Cons t1 ts)
  show ?case
  proof (cases vs)
    case Nil
    with Cons.prems show ?thesis by simp
  next
    case (Cons v1 vs')
    show ?thesis
    proof (cases "targetTime \<le> t1")
      case True
      with Cons.prems(1) have "t0 < t1" by simp
      moreover from True Cons.prems Cons
      have "v = v0 + (v1 - v0) * Finite ((targetTime - t0) / (t1 - t0))" by (simp add: Let_def)
      ultimately have "t0 < t1 \<and> t0 \<le> targetTime \<and> targetTime \<le> t1
          \<and> v = v0 + (v1 - v0) * Finite ((targetTime - t0) / (t1 - t0))"
        using True Cons.prems(1) by simp
      then show ?thesis by blast
    next
      case False
      then have lt: "t1 < targetTime" by simp
      from False Cons.prems(2) Cons
      have "surrounding (t1 # ts) (v1 # vs') targetTime = Some v" by simp
      from Cons.IH [OF lt this] show ?thesis .
    qed
  qed
qed

subsection \<open>Interpolated values are finite or NaN\<close>




lemma lerp_finite:
  "isFinite v0 \<Longrightarrow> isFinite v1 \<Longrightarrow> isFinite (v0 + (v1 - v0) * Finite t)"
  by (auto simp add: isFinite_iff)

lemma surrounding_finite:
  "\<forall>v \<in> set vals. isFinite v \<Longrightarrow> surrounding tms vals targetTime = Some v \<Longrightarrow> isFinite v"
proof (induction tms vals targetTime rule: surrounding.induct)
  case (1 t0 t1 ts v0 v1 vs targetTime)
  show ?case
  proof (cases "targetTime \<ge> t0 \<and> targetTime \<le> t1")
    case True
    with "1.prems" show ?thesis by (auto simp add: Let_def lerp_finite)
  next
    case False
    with "1.prems" "1.IH" show ?thesis by simp
  qed
qed simp_all

lemma interpolateValue_finite:
  assumes "\<forall>v \<in> set vals. isFinite v"
  shows "isFinite (interpolateValue tms vals targetTime)"
proof -
  have n: "\<And>i. i < length vals \<Longrightarrow> isFinite (vals ! i)" using assms by simp
  have s: "\<And>v. surrounding tms vals targetTime = Some v \<Longrightarrow> isFinite v"
    using assms by (rule surrounding_finite)
  show ?thesis
    unfolding interpolateValue_def using n s
    by (auto split: option.splits)
qed

subsection \<open>Conversions of finite quaternions and angles\<close>












subsection \<open>The subdivision loop ends on finite frames\<close>


lemma Math_max_three:
  "Math_max [Finite a, Finite b, Finite c] = Finite (max (max a b) c)"
  by (simp add: Math_max_def max_def)






text \<open>Curves whose key values are all finite satisfy both conditions.\<close>

lemma finite_curves:
  assumes "\<forall>v \<in> set (c_values cx) \<union> set (c_values cy) \<union> set (c_values cz). isFinite v"
  shows "(\<forall>v \<in> set (c_values cx) \<union> set (c_values cy) \<union> set (c_values cz). notInfinite v)
         \<and> firstFrameDefined cx cy cz"
proof
  from assms show "\<forall>v \<in> set (c_values cx) \<union> set (c_values cy) \<union> set (c_values cz). notInfinite v"
    by (auto simp add: isFinite_iff notInfinite_def)
next
  have f: "\<And>t. isFinite (interpolateValue (c_times cx) (c_values cx) t)
         \<and> isFinite (interpolateValue (c_times cy) (c_values cy) t)
         \<and> isFinite (interpolateValue (c_times cz) (c_values cz) t)"
    using assms by (simp add: interpolateValue_finite)
  have nn: "\<And>v. isFinite v \<Longrightarrow> \<not> isNaN v" by (auto simp add: isFinite_iff)
  have "\<forall>fr \<in> set (interpolatedValuesOf cx cy cz).
          case fr of (t, x, y, z) \<Rightarrow> \<not> isNaN x \<and> \<not> isNaN y \<and> \<not> isNaN z"
    using f nn by (auto simp add: interpolatedValuesOf_def)
  then show "firstFrameDefined cx cy cz"
    unfolding firstFrameDefined_def
    by (cases "interpolatedValuesOf cx cy cz") auto
qed

subsection \<open>The conversion loop unrolls a finite track\<close>





subsection \<open>An infinite key value\<close>

lemma subFrames_zero_step_aux:
  assumes "subFrames Q1 Q2 initialTime timeSpan step t = Some y"
  shows "\<not> (step = Finite 0 \<and> t = Finite 0)"
proof (rule subFrames.raw_induct
    [where P = "\<lambda>Q1 Q2 initialTime timeSpan step t y. \<not> (step = Finite 0 \<and> t = Finite 0)"])
  show "subFrames Q1 Q2 initialTime timeSpan step t = Some y" by (rule assms)
next
  fix f :: "nquat \<Rightarrow> nquat \<Rightarrow> real \<Rightarrow> real \<Rightarrow> number \<Rightarrow> number \<Rightarrow> (number list \<times> number list) option"
    and Q1 Q2 initialTime timeSpan step t y
  assume ih: "\<And>Q1 Q2 initialTime timeSpan step t y.
      f Q1 Q2 initialTime timeSpan step t = Some y \<Longrightarrow> \<not> (step = Finite 0 \<and> t = Finite 0)"
  assume body: "(if t < Finite 1
      then Option.bind (f Q1 Q2 initialTime timeSpan step (t + step))
            (\<lambda>later. Some ((Finite initialTime + t * Finite timeSpan) # fst later,
                  [nvx (quaternionToEuler (slerp Q1 Q2 t)),
                   nvy (quaternionToEuler (slerp Q1 Q2 t)),
                   nvz (quaternionToEuler (slerp Q1 Q2 t))] @ snd later))
      else Some ([], [])) = Some y"
  show "\<not> (step = Finite 0 \<and> t = Finite 0)"
  proof
    assume z: "step = Finite 0 \<and> t = Finite 0"
    with body obtain later
      where l: "f Q1 Q2 initialTime timeSpan (Finite 0) (Finite 0) = Some later"
      by (auto simp add: bind_eq_Some_conv)
    from ih [OF l] show False by simp
  qed
qed

lemma subFrames_zero_step:
  "subFrames Q1 Q2 initialTime timeSpan (Finite 0) (Finite 0) = None"
  using subFrames_zero_step_aux [of Q1 Q2 initialTime timeSpan "Finite 0" "Finite 0"]
  by (cases "subFrames Q1 Q2 initialTime timeSpan (Finite 0) (Finite 0)") auto

lemma frameStep_infinite:
  "frameStep ord (0, Finite 0, Finite 0, Finite 0) (1, PosInfinity, Finite 0, Finite 0) = None"
  by (simp add: frameStep_def Let_def Math_max_def minus_number_def subFrames_zero_step)

subsection \<open>The full-turn scenario\<close>

lemma roundTime_int: "roundTime 0 = 0" "roundTime 1 = 1" "roundTime 2 = 2" "roundTime 3 = 3"
  by (simp_all add: roundTime_def)

lemma merged_sweep: "mergedTimesOf sweepX zeroCurve zeroCurve = [0, 1]"
  by (simp add: mergedTimesOf_def sweepX_def zeroCurve_def roundTime_int)

lemma interp_sweep:
  "interpolateValue [0, 1] [Finite 0, Finite 360] 0 = Finite 0"
  "interpolateValue [0, 1] [Finite 0, Finite 360] 1 = Finite 360"
  "interpolateValue [0, 1] [Finite 0, Finite 0] 0 = Finite 0"
  "interpolateValue [0, 1] [Finite 0, Finite 0] 1 = Finite 0"
  by (simp_all add: interpolateValue_def)

lemma frames_sweep:
  "interpolatedValuesOf sweepX zeroCurve zeroCurve
     = [(0, Finite 0, Finite 0, Finite 0), (1, Finite 360, Finite 0, Finite 0)]"
proof -
  have c: "c_times sweepX = [0, 1]" "c_values sweepX = [Finite 0, Finite 360]"
    "c_times zeroCurve = [0, 1]" "c_values zeroCurve = [Finite 0, Finite 0]"
    by (simp_all add: sweepX_def zeroCurve_def)
  show ?thesis
    unfolding interpolatedValuesOf_def merged_sweep c by (simp add: interp_sweep)
qed

lemma euler_zero: "eulerToQuaternionByOrder (Finite 0) (Finite 0) (Finite 0) ''ZXY'' = nidentity"
  by (simp add: eulerToQuaternionByOrder_def eulerToQuaternionZXY_def Let_def)

lemma euler_full_turn:
  "eulerToQuaternionByOrder (Finite (2 * pi)) (Finite 0) (Finite 0) ''ZXY''
     = NQuat (Finite 0) (Finite 0) (Finite 0) (Finite (- 1))"
  by (simp add: eulerToQuaternionByOrder_def eulerToQuaternionZXY_def Let_def)

lemma slerp_same: "slerp nidentity nidentity (Finite (1 / 2)) = nidentity"
  by (simp add: slerp_def Let_def)

lemma toEuler_identity: "quaternionToEuler nidentity = NVec3 (Finite 0) (Finite 0) (Finite 0)"
  by (simp add: quaternionToEuler_def atan2_def Let_def)

lemma subFrames_half:
  "subFrames nidentity nidentity 0 1 (Finite (1 / 2)) (Finite (1 / 2))
     = Some ([Finite (1 / 2)], [Finite 0, Finite 0, Finite 0])"
proof -
  have a: "subFrames nidentity nidentity 0 1 (Finite (1 / 2)) (Finite 1) = Some ([], [])"
    by (subst subFrames.simps) simp
  have b: "(1 / 2 + 1 / 2 :: real) = 1" by simp
  show ?thesis
    by (subst subFrames.simps) (simp add: b a slerp_same toEuler_identity)
qed

lemma frameStep_sweep:
  "frameStep ''ZXY'' (0, Finite 0, Finite 0, Finite 0) (1, Finite 360, Finite 0, Finite 0)
     = Some ([Finite (1 / 2), Finite 1], [Finite 0, Finite 0, Finite 0, Finite (2 * pi), Finite 0, Finite 0])"
  by (simp add: frameStep_def Let_def Math_max_three euler_zero euler_full_turn ndot_def
      nneg_def subFrames_half)

lemma interpolateRotations_sweep:
  "interpolateRotations sweepX zeroCurve zeroCurve ''ZXY''
     = Some ([Finite 0, Finite (1 / 2), Finite 1],
             [Finite 0, Finite 0, Finite 0, Finite 0, Finite 0, Finite 0, Finite (2 * pi), Finite 0, Finite 0])"
  by (simp add: interpolateRotations_def merged_sweep Let_def frames_sweep frameStep_sweep)

lemma eulerQuats_step:
  "eulerQuats ord (xRad # yRad # zRad # rest) quats =
     eulerQuats ord rest
       (quats @ [if quats \<noteq> [] \<and> ndot (last quats) (eulerToQuaternionByOrder xRad yRad zRad ord) < Finite 0
                 then nneg (eulerToQuaternionByOrder xRad yRad zRad ord)
                 else eulerToQuaternionByOrder xRad yRad zRad ord])"
  by (simp add: Let_def ndot_def nneg_def)

lemma eulerQuats_sweep:
  "eulerQuats ''ZXY'' [Finite 0, Finite 0, Finite 0, Finite 0, Finite 0, Finite 0, Finite (2 * pi), Finite 0, Finite 0] []
     = [nidentity, nidentity, nidentity]"
  by (simp only: eulerQuats_step) (simp add: euler_zero euler_full_turn ndot_def nneg_def)

lemma generateQuaternions_sweep:
  "generateQuaternions sweepX zeroCurve zeroCurve ''ZXY''
     = Some ([Finite 0, Finite (1 / 2), Finite 1], [nidentity, nidentity, nidentity])"
  unfolding generateQuaternions_def interpolateRotations_sweep option.case prod.case
    eulerQuats_sweep
  by simp




subsection \<open>A first key value that is NaN\<close>









subsection \<open>Infinite key values\<close>

lemma merged_infinite:
  "mergedTimesOf infiniteCurve zeroCurve zeroCurve = [0, 1]"
  "mergedTimesOf divergingCurve zeroCurve zeroCurve = [0, 1]"
  by (simp_all add: mergedTimesOf_def infiniteCurve_def divergingCurve_def zeroCurve_def roundTime_int)

lemma interp_infinite:
  "interpolateValue [0, 1] [PosInfinity, PosInfinity] 0 = PosInfinity"
  "interpolateValue [0, 1] [PosInfinity, PosInfinity] 1 = PosInfinity"
  "interpolateValue [0, 1] [Finite 0, PosInfinity] 0 = Finite 0"
  "interpolateValue [0, 1] [Finite 0, PosInfinity] 1 = PosInfinity"
  by (simp_all add: interpolateValue_def)

lemma frames_infinite:
  "interpolatedValuesOf infiniteCurve zeroCurve zeroCurve
     = [(0, PosInfinity, Finite 0, Finite 0), (1, PosInfinity, Finite 0, Finite 0)]"
  "interpolatedValuesOf divergingCurve zeroCurve zeroCurve
     = [(0, Finite 0, Finite 0, Finite 0), (1, PosInfinity, Finite 0, Finite 0)]"
proof -
  have c: "c_times infiniteCurve = [0, 1]" "c_values infiniteCurve = [PosInfinity, PosInfinity]"
    "c_times divergingCurve = [0, 1]" "c_values divergingCurve = [Finite 0, PosInfinity]"
    "c_times zeroCurve = [0, 1]" "c_values zeroCurve = [Finite 0, Finite 0]"
    by (simp_all add: infiniteCurve_def divergingCurve_def zeroCurve_def)
  show "interpolatedValuesOf infiniteCurve zeroCurve zeroCurve
     = [(0, PosInfinity, Finite 0, Finite 0), (1, PosInfinity, Finite 0, Finite 0)]"
    unfolding interpolatedValuesOf_def merged_infinite c by (simp add: interp_infinite interp_sweep)
  show "interpolatedValuesOf divergingCurve zeroCurve zeroCurve
     = [(0, Finite 0, Finite 0, Finite 0), (1, PosInfinity, Finite 0, Finite 0)]"
    unfolding interpolatedValuesOf_def merged_infinite c by (simp add: interp_infinite interp_sweep)
qed







text \<open>
  An infinite key value next to a finite one: the span is infinite, the step of the
  subdivision is 0, and the extractor does not return.
\<close>

lemma generateQuaternions_diverging:
  "generateQuaternions divergingCurve zeroCurve zeroCurve ord = None"
  by (simp add: generateQuaternions_def interpolateRotations_def merged_infinite Let_def
      frames_infinite frameStep_infinite)


text \<open>
  Claim C1, as the code has it.  For the X-axis key pair \<open>0\<degree> \<rightarrow> 360\<degree>\<close> over one second with
  Y and Z constantly zero, the assembled rotation track has exactly three keys, at the
  times 0, 0.5 and 1, and all three quaternions are the identity \<open>(0, 0, 0, 1)\<close>: the end
  points are the same orientation, the second is unrolled onto the first, and the
  shortest-arc slerp between them stays at the identity.
\<close>

theorem C1_full_turn_track:
  "generateQuaternions sweepX zeroCurve zeroCurve ''ZXY''
     = Some ([Finite 0, Finite 0.5, Finite 1], [nidentity, nidentity, nidentity])"
  using generateQuaternions_sweep by simp

text \<open>
  The middle quaternion of that track is neither \<open>(1, 0, 0, 0)\<close> nor its negation.
\<close>

theorem C1_middle_counterexample:
  "\<not> (\<exists>q0 m q2. generateQuaternions sweepX zeroCurve zeroCurve ''ZXY''
                     = Some ([Finite 0, Finite 0.5, Finite 1], [q0, m, q2])
                   \<and> (m = NQuat (Finite 1) (Finite 0) (Finite 0) (Finite 0)
                      \<or> m = NQuat (Finite (- 1)) (Finite 0) (Finite 0) (Finite 0)))"
  using generateQuaternions_sweep by simp

section \<open>Properties of the destination writer\<close>

lemma length_overwrite:
  "off + length bs \<le> length buf \<Longrightarrow> length (overwrite buf off bs) = length buf"
  by (simp add: overwrite_def)

lemma overwrite_Nil [simp]: "off \<le> length buf \<Longrightarrow> overwrite buf off [] = buf"
  by (simp add: overwrite_def)

lemma overwrite_Cons:
  "off + Suc (length bs) \<le> length buf \<Longrightarrow>
     overwrite (buf[off := b]) (Suc off) bs = overwrite buf off (b # bs)"
  by (simp add: overwrite_def take_Suc_conv_app_nth drop_update_cancel)

lemma overwrite_append:
  "off + length bs1 + length bs2 \<le> length buf \<Longrightarrow>
     overwrite (overwrite buf off bs1) (off + length bs1) bs2 = overwrite buf off (bs1 @ bs2)"
proof -
  assume a: "off + length bs1 + length bs2 \<le> length buf"
  then have "min (length buf) off = off" by simp
  moreover have "off + length bs1 + length bs2 = off + (length bs1 + length bs2)" by simp
  ultimately show ?thesis
    by (simp add: overwrite_def ac_simps)
qed

lemma setBytes_overwrite:
  "off + length bs \<le> length buf \<Longrightarrow> setBytes buf off bs = Inr (overwrite buf off bs)"
proof (induction bs arbitrary: buf off)
  case Nil
  then show ?case by simp
next
  case (Cons b bs)
  then have "Suc off + length bs \<le> length (buf[off := b])" by simp
  from Cons.IH [OF this] Cons.prems show ?case
    by (simp add: setUint8_def overwrite_Cons)
qed

lemma length_le32 [simp]: "length (le32 w) = 4"
  by (simp add: le32_def)

lemma length_fieldBytes [simp]: "length (fieldBytes n bs) = n"
  by (simp add: fieldBytes_def)

lemma setUint32_overwrite:
  "off + 4 \<le> length buf \<Longrightarrow> setUint32 buf off w = Inr (overwrite buf off (le32 w))"
  by (simp add: setUint32_def setBytes_overwrite)

lemma setFloat32_overwrite:
  "off + 4 \<le> length buf \<Longrightarrow>
     setFloat32 env buf off v = Inr (overwrite buf off (le32 (float32Bits env v)))"
  by (simp add: setFloat32_def setUint32_overwrite)

lemma setUint8_overwrite:
  "off + 1 \<le> length buf \<Longrightarrow> setUint8 buf off v = Inr (overwrite buf off [v])"
  using setBytes_overwrite [of off "[v]" buf]
  by (simp add: setUint8_def split: if_splits)

lemma length_boneFrameRecord [simp]: "length (boneFrameRecord env name frame p r) = 111"
  by (simp add: boneFrameRecord_def)

lemma setBytes_after:
  "n = off + length bs \<Longrightarrow> n + length cs \<le> length buf \<Longrightarrow>
     setBytes (overwrite buf off bs) n cs = Inr (overwrite buf off (bs @ cs))"
  by (simp add: setBytes_overwrite length_overwrite overwrite_append)

lemma setUint32_after:
  "n = off + length bs \<Longrightarrow> n + 4 \<le> length buf \<Longrightarrow>
     setUint32 (overwrite buf off bs) n w = Inr (overwrite buf off (bs @ le32 w))"
  by (simp add: setUint32_def setBytes_after length_overwrite)

lemma setFloat32_after:
  "n = off + length bs \<Longrightarrow> n + 4 \<le> length buf \<Longrightarrow>
     setFloat32 env (overwrite buf off bs) n v
       = Inr (overwrite buf off (bs @ le32 (float32Bits env v)))"
  by (simp add: setFloat32_def setUint32_after)

lemma setUint8_after:
  "n = off + length bs \<Longrightarrow> n + 1 \<le> length buf \<Longrightarrow>
     setUint8 (overwrite buf off bs) n v = Inr (overwrite buf off (bs @ [v]))"
  using setBytes_after [of n off bs "[v]" buf]
  by (simp add: setUint8_def length_overwrite split: if_splits)

lemma writeBoneFrame_layout:
  assumes "offset + 111 \<le> length buf"
    and "kf_position keyframe = Some p" and "kf_rotation keyframe = Some r"
  shows "writeBoneFrame env buf offset keyframe =
           Inr (overwrite buf offset
                  (boneFrameRecord env (kf_boneName keyframe) (kf_frameNumber keyframe)
                     (writtenPosition p) (writtenRotation r)),
                offset + 111)"
proof -
  have first: "setBytes buf offset (fieldBytes 15 (encodeShiftJIS env (kf_boneName keyframe)))
     = Inr (overwrite buf offset (fieldBytes 15 (encodeShiftJIS env (kf_boneName keyframe))))"
    using assms(1) by (simp add: setBytes_overwrite)
  show ?thesis
    unfolding writeBoneFrame_def Let_def first bindE_def sum.case
    using assms
    by (simp add: setUint32_after setFloat32_after setBytes_after boneFrameRecord_def)
qed

lemma length_keyframeRecord: "complete kf \<Longrightarrow> length (keyframeRecord env kf) = 111"
  by (auto simp add: complete_def keyframeRecord_def)

lemma length_records:
  "\<forall>kf \<in> set kfs. complete kf \<Longrightarrow> length (concat (map (keyframeRecord env) kfs)) = 111 * length kfs"
  by (induction kfs) (simp_all add: length_keyframeRecord)

lemma writeBoneFrame_after:
  assumes "n = base + length bs" and "n + 111 \<le> length buf" and "complete kf"
  shows "writeBoneFrame env (overwrite buf base bs) n kf
           = Inr (overwrite buf base (bs @ keyframeRecord env kf), n + 111)"
proof -
  from assms(3) obtain p r where pr: "kf_position kf = Some p" "kf_rotation kf = Some r"
    by (auto simp add: complete_def)
  have l: "length (overwrite buf base bs) = length buf"
    using assms by (simp add: length_overwrite)
  have "n + 111 \<le> length (overwrite buf base bs)" using assms l by simp
  from writeBoneFrame_layout [OF this pr, of env]
  show ?thesis
    using assms
    by (simp add: keyframeRecord_def pr overwrite_append)
qed

lemma writeBoneFrames_after:
  assumes "n = base + length bs" and "n + 111 * length kfs \<le> length buf"
    and "\<forall>kf \<in> set kfs. complete kf"
  shows "writeBoneFrames env kfs (overwrite buf base bs, n)
           = Inr (overwrite buf base (bs @ concat (map (keyframeRecord env) kfs)),
                  n + 111 * length kfs)"
  using assms
proof (induction kfs arbitrary: bs n)
  case Nil
  then show ?case by (simp add: writeBoneFrames_def)
next
  case (Cons kf kfs)
  have c: "complete kf" using Cons.prems by simp
  have b: "n + 111 \<le> length buf" using Cons.prems by simp
  have n': "n + 111 = base + length (bs @ keyframeRecord env kf)"
    using Cons.prems c by (simp add: length_keyframeRecord)
  have r: "n + 111 + 111 * length kfs \<le> length buf" using Cons.prems by simp
  have a: "\<forall>kf \<in> set kfs. complete kf" using Cons.prems by simp
  from Cons.IH [OF n' r a]
  show ?case
    using writeBoneFrame_after [OF Cons.prems(1) b c, of env]
    by (simp add: writeBoneFrames_def)
qed

lemma writeIkStates_Cons:
  "writeIkStates env (nm # names) (dv, off) =
     (case setBytes dv off (fieldBytes 20 (encodeShiftJIS env nm)) of
        Inl e \<Rightarrow> Inl e
      | Inr dv1 \<Rightarrow>
          (case setUint8 dv1 (off + 20) 0 of
             Inl e \<Rightarrow> Inl e
           | Inr dv2 \<Rightarrow> writeIkStates env names (dv2, off + 20 + 1)))"
  by (simp add: writeIkStates_def bindE_def split: sum.splits)

lemma writeIkStates_after:
  assumes "n = base + length bs" and "n + 21 * length names \<le> length buf"
  shows "writeIkStates env names (overwrite buf base bs, n)
           = Inr (overwrite buf base
                    (bs @ concat (map (\<lambda>boneName. fieldBytes 20 (encodeShiftJIS env boneName) @ [0]) names)),
                  n + 21 * length names)"
  using assms
proof (induction names arbitrary: bs n)
  case Nil
  then show ?case by (simp add: writeIkStates_def)
next
  case (Cons nm names)
  define F where "F = fieldBytes 20 (encodeShiftJIS env nm)"
  have lF: "length F = 20" by (simp add: F_def)
  have s1: "setBytes (overwrite buf base bs) n F = Inr (overwrite buf base (bs @ F))"
    using Cons.prems lF by (simp add: setBytes_after)
  have s2: "setUint8 (overwrite buf base (bs @ F)) (n + 20) 0
              = Inr (overwrite buf base ((bs @ F) @ [0]))"
    using Cons.prems lF by (intro setUint8_after) simp_all
  have n': "n + 20 + 1 = base + length ((bs @ F) @ [0])"
    using Cons.prems lF by simp
  have r: "n + 20 + 1 + 21 * length names \<le> length buf" using Cons.prems by simp
  note ih = Cons.IH [OF n' r]
  have "writeIkStates env (nm # names) (overwrite buf base bs, n)
          = writeIkStates env names (overwrite buf base ((bs @ F) @ [0]), n + 20 + 1)"
    unfolding writeIkStates_Cons F_def [symmetric] s1 sum.case s2 ..
  also note ih
  finally show ?case by (simp add: F_def)
qed

lemma overwrite_all: "length bs = length buf \<Longrightarrow> overwrite buf 0 bs = bs"
  by (simp add: overwrite_def)

lemma length_ikDisabledBones [simp]: "length ikDisabledBones = 6"
  by (simp add: ikDisabledBones_def)

lemma length_propertyKeyframe [simp]: "length (propertyKeyframe env) = 135"
  by (simp add: propertyKeyframe_def length_concat o_def ikDisabledBones_def)

lemma length_vmdLayout:
  "\<forall>kf \<in> set kfs. complete kf \<Longrightarrow> length (vmdLayout env kfs) = 209 + 111 * length kfs"
  by (simp add: vmdLayout_def length_records)

lemma setBytes_first:
  "length bs \<le> length buf \<Longrightarrow> setBytes buf 0 bs = Inr (overwrite buf 0 bs)"
  by (simp add: setBytes_overwrite)

lemma length_ikStates:
  "length (concat (map (\<lambda>boneName. fieldBytes 20 (encodeShiftJIS env boneName) @ [0]) names))
     = 21 * length names"
  by (induction names) simp_all

lemma writeVMD_layout:
  assumes "\<forall>kf \<in> set kfs. complete kf"
  shows "writeVMD env kfs = Inr (vmdLayout env kfs)"
proof -
  have lr: "length (concat (map (keyframeRecord env) kfs)) = 111 * length kfs"
    using assms by (rule length_records)
  show ?thesis
    unfolding writeVMD_def Let_def
    using assms
    by (simp add: bindE_def setBytes_first setBytes_after setUint32_after setUint8_after
        writeBoneFrames_after writeIkStates_after lr overwrite_all vmdLayout_def
        propertyKeyframe_def length_ikStates)
qed


lemma foldE_total:
  assumes "I s"
    and "\<And>x s. x \<in> set xs \<Longrightarrow> I s \<Longrightarrow> \<exists>s'. f x s = Inr s' \<and> I s'"
  shows "\<exists>s'. foldE f xs s = Inr s' \<and> I s'"
  using assms
proof (induction xs arbitrary: s)
  case Nil
  then show ?case by simp
next
  case (Cons x xs)
  from Cons.prems(2) [OF _ Cons.prems(1), of x]
  obtain s1 where s1: "f x s = Inr s1" and i1: "I s1" by auto
  have "\<exists>s'. foldE f xs s1 = Inr s' \<and> I s'"
  proof (rule Cons.IH [OF i1])
    fix y t assume "y \<in> set xs" "I t"
    then show "\<exists>s'. f y t = Inr s' \<and> I s'" using Cons.prems(2) [of y t] by simp
  qed
  with s1 show ?case by simp
qed

lemma set_update_cases:
  "(k', v') \<in> set (AList.update k v al) \<Longrightarrow> (k', v') = (k, v) \<or> (k', v') \<in> set al"
  by (induction al) (auto split: if_splits)

lemma findIndex_Some: "findIndex P xs = Some i \<Longrightarrow> i < length xs \<and> P (xs ! i)"
proof (induction xs arbitrary: i)
  case Nil
  then show ?case by simp
next
  case (Cons x xs)
  then show ?case by (cases "P x") (auto simp add: nth_Cons')
qed

lemma interpolateQuat_total:
  assumes "rb_times track \<noteq> []" and "length (rb_quats track) = length (rb_times track)"
  shows "\<exists>q. interpolateQuat env track time = Inr (Some q)"
proof (cases "findIndex (\<lambda>t. t \<ge> time) (rb_times track)")
  case None
  with assms show ?thesis by (auto simp add: interpolateQuat_def Let_def)
next
  case (Some idx)
  from findIndex_Some [OF Some] assms have "idx < length (rb_quats track)" by simp
  then have "nth_opt (rb_quats track) idx \<noteq> None" "nth_opt (rb_quats track) (idx - 1) \<noteq> None"
    by (simp_all add: nth_opt_def)
  with Some show ?thesis
    by (auto simp add: interpolateQuat_def Let_def)
qed

lemma interpolatePosition_total:
  assumes "rp_times track \<noteq> []" and "length (rp_positions track) = length (rp_times track)"
  shows "\<exists>p. interpolatePosition track time = Inr (Some p)"
proof (cases "findIndex (\<lambda>t. t \<ge> time) (rp_times track)")
  case None
  with assms show ?thesis by (auto simp add: interpolatePosition_def Let_def)
next
  case (Some idx)
  from findIndex_Some [OF Some] assms have "idx < length (rp_positions track)" by simp
  then have "nth_opt (rp_positions track) idx \<noteq> None"
    "nth_opt (rp_positions track) (idx - 1) \<noteq> None"
    by (simp_all add: nth_opt_def)
  with Some show ?thesis
    by (auto simp add: interpolatePosition_def Let_def)
qed

lemma keyed_rotation_total:
  assumes "rb_times track \<noteq> []" and "length (rb_quats track) = length (rb_times track)"
  shows "\<exists>q. (case findIndex P (rb_times track) of
                 Some rotationIdx \<Rightarrow> Inr (map_option quatN (nth_opt (rb_quats track) rotationIdx))
               | None \<Rightarrow> interpolateQuat env track time) = Inr (Some q)"
proof (cases "findIndex P (rb_times track)")
  case None
  with interpolateQuat_total [OF assms] show ?thesis by simp
next
  case (Some i)
  from findIndex_Some [OF Some] assms show ?thesis
    by (simp add: Some nth_opt_def)
qed

lemma keyed_position_total:
  assumes "rp_times pt \<noteq> []" and "length (rp_positions pt) = length (rp_times pt)"
  shows "\<exists>p. (case findIndex P (rp_times pt) of
                 Some positionIdx \<Rightarrow> Inr (map_option vec3N (nth_opt (rp_positions pt) positionIdx))
               | None \<Rightarrow> interpolatePosition pt time) = Inr (Some p)"
proof (cases "findIndex P (rp_times pt)")
  case None
  with interpolatePosition_total [OF assms] show ?thesis by simp
next
  case (Some i)
  from findIndex_Some [OF Some] assms show ?thesis
    by (simp add: Some nth_opt_def)
qed


lemma boneKeyframeAt_total:
  assumes "rb_times track \<noteq> []" and "length (rb_quats track) = length (rb_times track)"
    and "\<And>pt. posTrack = Some pt \<Longrightarrow>
           rp_times pt \<noteq> [] \<and> length (rp_positions pt) = length (rp_times pt)"
  shows "\<exists>kf. boneKeyframeAt env fps track posTrack time = Inr kf \<and> complete kf"
proof -
  obtain q where q: "(case findIndex (\<lambda>t. \<bar>t - time\<bar> < 0.0001) (rb_times track) of
                 Some rotationIdx \<Rightarrow> Inr (map_option quatN (nth_opt (rb_quats track) rotationIdx))
               | None \<Rightarrow> interpolateQuat env track time) = Inr (Some q)"
    using keyed_rotation_total [OF assms(1,2)] by blast
  show ?thesis
  proof (cases posTrack)
    case None
    with q show ?thesis
      by (simp add: boneKeyframeAt_def Let_def bindE_def complete_def)
  next
    case (Some pt)
    from assms(3) [OF Some] keyed_position_total
    obtain p where "(case findIndex (\<lambda>t. \<bar>t - time\<bar> < 0.0001) (rp_times pt) of
                 Some positionIdx \<Rightarrow> Inr (map_option vec3N (nth_opt (rp_positions pt) positionIdx))
               | None \<Rightarrow> interpolatePosition pt time) = Inr (Some p)"
      by blast
    with q Some show ?thesis
      by (simp add: boneKeyframeAt_def Let_def bindE_def complete_def)
  qed
qed


lemma positionKeyframeAt_total:
  assumes "rp_times pt \<noteq> []" and "length (rp_positions pt) = length (rp_times pt)"
  shows "\<exists>kf. positionKeyframeAt fps pt time = Inr kf \<and> complete kf"
proof -
  from keyed_position_total [OF assms]
  obtain p where "(case findIndex (\<lambda>t. \<bar>t - time\<bar> < 0.0001) (rp_times pt) of
                 Some positionIdx \<Rightarrow> Inr (map_option vec3N (nth_opt (rp_positions pt) positionIdx))
               | None \<Rightarrow> interpolatePosition pt time) = Inr (Some p)"
    by blast
  then show ?thesis
    by (simp add: positionKeyframeAt_def Let_def bindE_def complete_def)
qed

lemma fold_update_member:
  "map_of (fold (\<lambda>track m. AList.update (rp_name track) track m) ts m0) n = Some pt
     \<Longrightarrow> pt \<in> set ts \<or> map_of m0 n = Some pt"
proof (induction ts arbitrary: m0)
  case Nil
  then show ?case by simp
next
  case (Cons t ts)
  from Cons.IH [of "AList.update (rp_name t) t m0"] Cons.prems
  show ?case by (auto simp add: update_conv' split: if_splits)
qed

lemma posTrackOf_member:
  "posTrackOf clip track = Some pt \<Longrightarrow> pt \<in> set (rc_positionTracks clip)"
  using fold_update_member [of "rc_positionTracks clip" "[]" "rb_name track" pt]
  by (simp add: posTrackOf_def positionTrackMap_def)





lemma completeMap_update:
  "completeMap m \<Longrightarrow> complete kf \<Longrightarrow> completeMap (AList.update k kf m)"
  unfolding completeMap_def by (auto dest!: set_update_cases)

lemma boneKeyframesOf_total:
  assumes "wfClip clip" and "track \<in> set (rc_boneTracks clip)"
  shows "\<exists>m. boneKeyframesOf env fps clip track = Inr m \<and> completeMap m"
  unfolding boneKeyframesOf_def
proof (rule foldE_total)
  show "completeMap []" by (simp add: completeMap_def)
next
  fix time m1 assume c: "completeMap m1"
  have t: "rb_times track \<noteq> []" "length (rb_quats track) = length (rb_times track)"
    using assms by (auto simp add: wfClip_def)
  have p: "\<And>pt. posTrackOf clip track = Some pt \<Longrightarrow>
           rp_times pt \<noteq> [] \<and> length (rp_positions pt) = length (rp_times pt)"
    using assms(1) posTrackOf_member by (auto simp add: wfClip_def)
  from boneKeyframeAt_total [OF t p, of "posTrackOf clip track" env fps time]
  obtain kf where "boneKeyframeAt env fps track (posTrackOf clip track) time = Inr kf"
    and "complete kf" by blast
  with c show "\<exists>m2. bindE (boneKeyframeAt env fps track (posTrackOf clip track) time)
              (\<lambda>kf. Inr (AList.update (kf_frameNumber kf) kf m1)) = Inr m2 \<and> completeMap m2"
    by (simp add: bindE_def completeMap_update)
qed

lemma positionKeyframesOf_total:
  assumes "wfClip clip" and "pt \<in> set (rc_positionTracks clip)"
  shows "\<exists>m. positionKeyframesOf fps pt = Inr m \<and> completeMap m"
  unfolding positionKeyframesOf_def
proof (rule foldE_total)
  show "completeMap []" by (simp add: completeMap_def)
next
  fix time m1 assume c: "completeMap m1"
  have t: "rp_times pt \<noteq> []" "length (rp_positions pt) = length (rp_times pt)"
    using assms by (auto simp add: wfClip_def)
  from positionKeyframeAt_total [OF t, of fps time]
  obtain kf where "positionKeyframeAt fps pt time = Inr kf" and "complete kf" by blast
  with c show "\<exists>m2. bindE (positionKeyframeAt fps pt time)
              (\<lambda>kf. Inr (AList.update (kf_frameNumber kf) kf m1)) = Inr m2 \<and> completeMap m2"
    by (simp add: bindE_def completeMap_update)
qed


lemma allComplete_update:
  assumes "allComplete M" and "completeMap m"
  shows "allComplete (AList.update name m M)"
  using assms unfolding allComplete_def completeMap_def
  by (auto dest!: set_update_cases)


lemma keyframeMapOf_total:
  assumes "wfClip clip"
  shows "\<exists>M. keyframeMapOf env fps clip = Inr M \<and> allComplete M"
proof -
  have "\<exists>M1. foldE (\<lambda>track keyframeMap.
                 bindE (boneKeyframesOf env fps clip track) (\<lambda>boneKeyframes.
                 Inr (AList.update (rb_name track) boneKeyframes keyframeMap)))
              (rc_boneTracks clip) [] = Inr M1 \<and> allComplete M1"
  proof (rule foldE_total)
    show "allComplete []" by (simp add: allComplete_def)
  next
    fix track K assume t: "track \<in> set (rc_boneTracks clip)" and k: "allComplete K"
    from boneKeyframesOf_total [OF assms t, of env fps]
    obtain m where "boneKeyframesOf env fps clip track = Inr m" and "completeMap m" by blast
    with k show "\<exists>K'. bindE (boneKeyframesOf env fps clip track)
                (\<lambda>boneKeyframes. Inr (AList.update (rb_name track) boneKeyframes K)) = Inr K'
              \<and> allComplete K'"
      by (simp add: bindE_def allComplete_update)
  qed
  then obtain M1 where a: "foldE (\<lambda>track keyframeMap.
                 bindE (boneKeyframesOf env fps clip track) (\<lambda>boneKeyframes.
                 Inr (AList.update (rb_name track) boneKeyframes keyframeMap)))
              (rc_boneTracks clip) [] = Inr M1" and c1: "allComplete M1" by blast
  have "\<exists>M. foldE (\<lambda>posTrack keyframeMap.
              if rp_name posTrack \<notin> set (map rb_name (rc_boneTracks clip)) then
                bindE (positionKeyframesOf fps posTrack) (\<lambda>boneKeyframes.
                Inr (AList.update (rp_name posTrack) boneKeyframes keyframeMap))
              else Inr keyframeMap)
           (rc_positionTracks clip) M1 = Inr M \<and> allComplete M"
  proof (rule foldE_total)
    show "allComplete M1" by (rule c1)
  next
    fix pt K assume t: "pt \<in> set (rc_positionTracks clip)" and k: "allComplete K"
    from positionKeyframesOf_total [OF assms t, of fps]
    obtain m where "positionKeyframesOf fps pt = Inr m" and "completeMap m" by blast
    with k show "\<exists>K'. (if rp_name pt \<notin> set (map rb_name (rc_boneTracks clip)) then
                bindE (positionKeyframesOf fps pt) (\<lambda>boneKeyframes.
                Inr (AList.update (rp_name pt) boneKeyframes K))
              else Inr K) = Inr K' \<and> allComplete K'"
      by (simp add: bindE_def allComplete_update)
  qed
  with a show ?thesis by (simp add: keyframeMapOf_def bindE_def)
qed

lemma mset_insertBy: "mset (insertBy cmp v xs) = add_mset v (mset xs)"
  by (induction xs) simp_all

lemma mset_foldl_insertBy:
  "mset (foldl (\<lambda>sorted v. insertBy cmp v sorted) acc xs) = mset acc + mset xs"
  by (induction xs arbitrary: acc) (simp_all add: mset_insertBy)

lemma mset_sortBy: "mset (sortBy cmp xs) = mset xs"
  by (simp add: sortBy_def mset_foldl_insertBy)

lemma set_sortBy: "set (sortBy cmp xs) = set xs"
  using mset_sortBy [of cmp xs] by (metis set_mset_mset)

lemma length_sortBy: "length (sortBy cmp xs) = length xs"
  using mset_sortBy [of cmp xs] by (metis size_mset)


lemma flat_member:
  "kf \<in> set (concat (map (\<lambda>(name, boneKeyframes). map snd boneKeyframes) M))
     \<longleftrightarrow> (\<exists>name m f. (name, m) \<in> set M \<and> (f, kf) \<in> set m)"
proof (induction M)
  case Nil
  then show ?case by simp
next
  case (Cons e M)
  obtain name m where e: "e = (name, m)" by (cases e)
  have "kf \<in> set (map snd m) \<longleftrightarrow> (\<exists>f. (f, kf) \<in> set m)"
    by force
  with Cons.IH show ?case unfolding e by auto
qed






lemma keyframesOf_total:
  assumes "wfClip clip"
  shows "\<exists>kfs. keyframesOf env fps clip = Inr kfs \<and> (\<forall>kf \<in> set kfs. complete kf)"
proof -
  from keyframeMapOf_total [OF assms, of env fps]
  obtain M where M: "keyframeMapOf env fps clip = Inr M" and c: "allComplete M" by blast
  have "\<forall>kf \<in> set (concat (map (\<lambda>(name, boneKeyframes). map snd boneKeyframes) M)). complete kf"
  proof
    fix kf assume "kf \<in> set (concat (map (\<lambda>(name, boneKeyframes). map snd boneKeyframes) M))"
    then obtain name m f where "(name, m) \<in> set M" and "(f, kf) \<in> set m"
      unfolding flat_member by blast
    with c show "complete kf" unfolding allComplete_def by blast
  qed
  with M show ?thesis
    by (simp add: keyframesOf_def bindE_def set_sortBy)
qed

lemma sort_remdups_Nil: "sort (remdups xs) = [] \<longleftrightarrow> xs = []"
proof -
  have "set (sort (remdups xs)) = set xs" by simp
  then show ?thesis by (metis set_empty)
qed

lemma convertToVMD_alt:
  "convertToVMD env clip fps =
     (if clipTimes clip = [] then Inr []
      else bindE (keyframesOf env fps clip) (\<lambda>keyframes. writeVMD env keyframes))"
proof -
  have e: "(length (sort (remdups (clipTimes clip))) = 0) = (clipTimes clip = [])"
    by (simp only: length_0_conv sort_remdups_Nil)
  show ?thesis
    unfolding convertToVMD_def Let_def clipTimes_def [symmetric] e ..
qed

lemma convertToVMD_no_times:
  "clipTimes clip = [] \<Longrightarrow> convertToVMD env clip fps = Inr []"
  by (simp add: convertToVMD_alt)

lemma convertToVMD_layout:
  assumes "wfClip clip" and "clipTimes clip \<noteq> []"
  shows "\<exists>kfs. keyframesOf env fps clip = Inr kfs \<and> (\<forall>kf \<in> set kfs. complete kf)
           \<and> convertToVMD env clip fps = Inr (vmdLayout env kfs)"
proof -
  from keyframesOf_total [OF assms(1), of env fps]
  obtain kfs where k: "keyframesOf env fps clip = Inr kfs" and c: "\<forall>kf \<in> set kfs. complete kf"
    by blast
  have "convertToVMD env clip fps = bindE (keyframesOf env fps clip) (\<lambda>keyframes. writeVMD env keyframes)"
    using assms(2) by (simp only: convertToVMD_alt if_False)
  also have "\<dots> = writeVMD env kfs" by (simp add: k bindE_def)
  also have "\<dots> = Inr (vmdLayout env kfs)" using c by (rule writeVMD_layout)
  finally show ?thesis using k c by blast
qed

lemma drop_count_field:
  "take 4 (drop 50 (vmdLayout env kfs)) = le32 (of_nat (length kfs))"
  by (simp add: vmdLayout_def)

lemma drop_property_section:
  assumes "\<forall>kf \<in> set kfs. complete kf"
  shows "drop (70 + 111 * length kfs) (vmdLayout env kfs) = le32 1 @ propertyKeyframe env"
proof -
  have "vmdLayout env kfs =
      (fieldBytes 30 (charCodes header) @ replicate 20 0 @ le32 (of_nat (length kfs))
       @ concat (map (keyframeRecord env) kfs) @ le32 0 @ le32 0 @ le32 0 @ le32 0)
      @ (le32 1 @ propertyKeyframe env)"
    by (simp add: vmdLayout_def)
  moreover have "length (fieldBytes 30 (charCodes header) @ replicate 20 0 @ le32 (of_nat (length kfs))
       @ concat (map (keyframeRecord env) kfs) @ le32 0 @ le32 0 @ le32 0 @ le32 0)
       = 70 + 111 * length kfs"
    by (simp add: length_records [OF assms])
  ultimately show ?thesis by (metis append_eq_conv_conj)
qed


lemma wf_sampleClip: "wfClip sampleClip"
  by (simp add: wfClip_def sampleClip_def sampleTrack_def)

lemma times_sampleClip: "clipTimes sampleClip = [0, 0.01]"
  by (simp add: clipTimes_def sampleClip_def sampleTrack_def)








text \<open>
  Claim C6, as the code has it.  For a clip with well-formed tracks and at least one
  track time the writer returns a blob whose bone-frame count field holds the number
  \<open>N\<close> of bone-frame records and whose length is \<open>50 + 4 + 111\<cdot>N + 4\<cdot>4 + 4 + 135\<close>: the
  property keyframe takes \<open>4 + 1 + 4 + 6\<cdot>21 = 135\<close> bytes.
\<close>

theorem C6_blob_length:
  assumes "wfClip clip" and "clipTimes clip \<noteq> []"
  shows "\<exists>kfs blob. keyframesOf env fps clip = Inr kfs
           \<and> convertToVMD env clip fps = Inr blob
           \<and> take 4 (drop 50 blob) = le32 (of_nat (length kfs))
           \<and> length blob = 50 + 4 + 111 * length kfs + 4 * 4 + 4 + 135"
proof -
  from convertToVMD_layout [OF assms, of env fps]
  obtain kfs where k: "keyframesOf env fps clip = Inr kfs" and c: "\<forall>kf \<in> set kfs. complete kf"
    and b: "convertToVMD env clip fps = Inr (vmdLayout env kfs)" by blast
  have "length (vmdLayout env kfs) = 50 + 4 + 111 * length kfs + 4 * 4 + 4 + 135"
    using length_vmdLayout [OF c, of env] by simp
  with k b drop_count_field [of env kfs] show ?thesis by blast
qed

theorem C6_blob_length_witness:
  "wfClip sampleClip \<and> clipTimes sampleClip \<noteq> []
   \<and> (\<exists>kfs blob. keyframesOf samplePlatform 30 sampleClip = Inr kfs
           \<and> convertToVMD samplePlatform sampleClip 30 = Inr blob
           \<and> take 4 (drop 50 blob) = le32 (of_nat (length kfs))
           \<and> length blob = 50 + 4 + 111 * length kfs + 4 * 4 + 4 + 135)"
proof -
  have t: "clipTimes sampleClip \<noteq> []" by (simp add: times_sampleClip)
  from C6_blob_length [OF wf_sampleClip t, of samplePlatform 30] wf_sampleClip t
  show ?thesis by blast
qed

text \<open>
  The clip of one bone with one record: its blob does not have the length
  \<open>50 + 4 + 111 + 4\<cdot>4 + 4 + 125 = 310\<close>.
\<close>

theorem C6_counterexample:
  "\<not> (\<forall>kfs blob. keyframesOf samplePlatform 30 sampleClip = Inr kfs
         \<and> convertToVMD samplePlatform sampleClip 30 = Inr blob
         \<longrightarrow> length blob = 50 + 4 + 111 * length kfs + 4 * 4 + 4 + 125)"
proof
  assume a: "\<forall>kfs blob. keyframesOf samplePlatform 30 sampleClip = Inr kfs
         \<and> convertToVMD samplePlatform sampleClip 30 = Inr blob
         \<longrightarrow> length blob = 50 + 4 + 111 * length kfs + 4 * 4 + 4 + 125"
  have t: "clipTimes sampleClip \<noteq> []" by (simp add: times_sampleClip)
  from convertToVMD_layout [OF wf_sampleClip t, of samplePlatform 30]
  obtain kfs where k: "keyframesOf samplePlatform 30 sampleClip = Inr kfs"
    and c: "\<forall>kf \<in> set kfs. complete kf"
    and b: "convertToVMD samplePlatform sampleClip 30 = Inr (vmdLayout samplePlatform kfs)"
    by blast
  from a k b have "length (vmdLayout samplePlatform kfs) = 50 + 4 + 111 * length kfs + 4 * 4 + 4 + 125"
    by blast
  with length_vmdLayout [OF c, of samplePlatform] show False by simp
qed

text \<open>
  Claim C8, as the code has it.  For a clip with well-formed tracks and at least one
  track time the blob ends, after the header, the bone frames and the four zero
  counts, with the property-keyframe count 1 and one property keyframe: frame 0,
  visibility 1, the entry count 6, and six entries of a 20-byte name and the state
  byte 0.  For a clip without any track time the blob is empty.
\<close>

theorem C8_property_keyframe:
  "(wfClip clip \<and> clipTimes clip \<noteq> [] \<longrightarrow>
      (\<exists>kfs blob. keyframesOf env fps clip = Inr kfs
           \<and> convertToVMD env clip fps = Inr blob
           \<and> drop (50 + 4 + 111 * length kfs + 4 * 4) blob =
               le32 1 @ le32 0 @ [1] @ le32 6
               @ concat (map (\<lambda>boneName. fieldBytes 20 (encodeShiftJIS env boneName) @ [0])
                             ikDisabledBones)
           \<and> length ikDisabledBones = 6))
   \<and> (clipTimes clip = [] \<longrightarrow> convertToVMD env clip fps = Inr [])"
proof (intro conjI impI)
  assume "wfClip clip \<and> clipTimes clip \<noteq> []"
  then have w: "wfClip clip" and t: "clipTimes clip \<noteq> []" by simp_all
  from convertToVMD_layout [OF w t, of env fps]
  obtain kfs where k: "keyframesOf env fps clip = Inr kfs" and c: "\<forall>kf \<in> set kfs. complete kf"
    and b: "convertToVMD env clip fps = Inr (vmdLayout env kfs)" by blast
  have "drop (50 + 4 + 111 * length kfs + 4 * 4) (vmdLayout env kfs) =
               le32 1 @ le32 0 @ [1] @ le32 6
               @ concat (map (\<lambda>boneName. fieldBytes 20 (encodeShiftJIS env boneName) @ [0])
                             ikDisabledBones)"
    using drop_property_section [OF c, of env] by (simp add: propertyKeyframe_def)
  with k b show "\<exists>kfs blob. keyframesOf env fps clip = Inr kfs
           \<and> convertToVMD env clip fps = Inr blob
           \<and> drop (50 + 4 + 111 * length kfs + 4 * 4) blob =
               le32 1 @ le32 0 @ [1] @ le32 6
               @ concat (map (\<lambda>boneName. fieldBytes 20 (encodeShiftJIS env boneName) @ [0])
                             ikDisabledBones)
           \<and> length ikDisabledBones = 6"
    by (simp del: append.simps)
next
  assume "clipTimes clip = []"
  then show "convertToVMD env clip fps = Inr []" by (rule convertToVMD_no_times)
qed

theorem C8_property_keyframe_witness:
  "wfClip sampleClip \<and> clipTimes sampleClip \<noteq> []
   \<and> (\<exists>kfs blob. keyframesOf samplePlatform 30 sampleClip = Inr kfs
           \<and> convertToVMD samplePlatform sampleClip 30 = Inr blob
           \<and> drop (50 + 4 + 111 * length kfs + 4 * 4) blob =
               le32 1 @ le32 0 @ [1] @ le32 6
               @ concat (map (\<lambda>boneName. fieldBytes 20 (encodeShiftJIS samplePlatform boneName) @ [0])
                             ikDisabledBones)
           \<and> length ikDisabledBones = 6)
   \<and> clipTimes emptyClip = []
   \<and> convertToVMD samplePlatform emptyClip 30 = Inr []"
proof -
  have t: "clipTimes sampleClip \<noteq> []" by (simp add: times_sampleClip)
  have e: "clipTimes emptyClip = []" by (simp add: clipTimes_def emptyClip_def)
  from C8_property_keyframe [of sampleClip samplePlatform 30] wf_sampleClip t
  have 1: "\<exists>kfs blob. keyframesOf samplePlatform 30 sampleClip = Inr kfs
           \<and> convertToVMD samplePlatform sampleClip 30 = Inr blob
           \<and> drop (50 + 4 + 111 * length kfs + 4 * 4) blob =
               le32 1 @ le32 0 @ [1] @ le32 6
               @ concat (map (\<lambda>boneName. fieldBytes 20 (encodeShiftJIS samplePlatform boneName) @ [0])
                             ikDisabledBones)
           \<and> length ikDisabledBones = 6"
    by blast
  from C8_property_keyframe [of emptyClip samplePlatform 30] e
  have 2: "convertToVMD samplePlatform emptyClip 30 = Inr []" by blast
  from 1 2 wf_sampleClip t e show ?thesis by blast
qed

text \<open>
  For the clip without tracks the writer returns the empty blob, which holds no property
  keyframe.
\<close>

theorem C8_no_times_counterexample:
  "convertToVMD samplePlatform emptyClip 30 = Inr []
   \<and> \<not> (\<exists>blob before. convertToVMD samplePlatform emptyClip 30 = Inr blob
            \<and> blob = before @ le32 1 @ propertyKeyframe samplePlatform)"
proof -
  have "clipTimes emptyClip = []" by (simp add: clipTimes_def emptyClip_def)
  then have "convertToVMD samplePlatform emptyClip 30 = Inr []"
    by (rule convertToVMD_no_times)
  then show ?thesis by (simp add: le32_def)
qed

text \<open>
  Claim C7, as the code has it.  \<^verbatim>\<open>writeBoneFrame\<close> stores the 111-byte record at the
  offset; every component of the position is replaced by 0 when it is not finite, and
  every component of the rotation on its own: a non-finite \<open>x\<close>, \<open>y\<close> or \<open>z\<close> by 0
  and a non-finite \<open>w\<close> by 1.  A finite component is handed to the float store as it
  is.
\<close>

theorem C7_component_defaults:
  assumes "offset + 111 \<le> length buf"
    and "kf_position kf = Some (NVec3 px py pz)"
    and "kf_rotation kf = Some (NQuat rx ry rz rw)"
  shows "writeBoneFrame env buf offset kf =
           Inr (overwrite buf offset
                  (fieldBytes 15 (encodeShiftJIS env (kf_boneName kf))
                   @ le32 (word_of_int (kf_frameNumber kf))
                   @ le32 (float32Bits env (if isFinite px then px else Finite 0))
                   @ le32 (float32Bits env (if isFinite py then py else Finite 0))
                   @ le32 (float32Bits env (if isFinite pz then pz else Finite 0))
                   @ le32 (float32Bits env (if isFinite rx then rx else Finite 0))
                   @ le32 (float32Bits env (if isFinite ry then ry else Finite 0))
                   @ le32 (float32Bits env (if isFinite rz then rz else Finite 0))
                   @ le32 (float32Bits env (if isFinite rw then rw else Finite 1))
                   @ replicate 64 20),
                offset + 111)"
  using writeBoneFrame_layout [OF assms, of env]
  by (simp add: boneFrameRecord_def writtenPosition_def writtenRotation_def Let_def)

lemma charCodes_Bone: "fieldBytes 15 (charCodes ''Bone'') = [66, 111, 110, 101, 0, 0, 0, 0, 0, 0, 0, 0, 0, 0, 0]"
  by (simp add: fieldBytes_def charCodes_def upt_rec nth_Cons')

theorem C7_component_defaults_witness:
  "(0::nat) + 111 \<le> length (replicate 111 (0::byte))
   \<and> kf_position nanKeyframe = Some (NVec3 PosInfinity (Finite 1) NaN)
   \<and> kf_rotation nanKeyframe = Some (NQuat NaN (Finite 1) (Finite 0) (Finite 0))
   \<and> writeBoneFrame samplePlatform (replicate 111 0) 0 nanKeyframe =
        Inr (fieldBytes 15 (charCodes ''Bone'') @ le32 0
             @ le32 0 @ le32 0x3F800000 @ le32 0
             @ le32 0 @ le32 0x3F800000 @ le32 0 @ le32 0
             @ replicate 64 20, 111)"
proof -
  have h1: "(0::nat) + 111 \<le> length (replicate 111 (0::byte))" by simp
  have h2: "kf_position nanKeyframe = Some (NVec3 PosInfinity (Finite 1) NaN)"
    and h3: "kf_rotation nanKeyframe = Some (NQuat NaN (Finite 1) (Finite 0) (Finite 0))"
    by (simp_all add: nanKeyframe_def)
  have n: "kf_boneName nanKeyframe = ''Bone''" "kf_frameNumber nanKeyframe = 0"
    by (simp_all add: nanKeyframe_def)
  from C7_component_defaults [OF h1 h2 h3, of samplePlatform] h1 h2 h3
  show ?thesis
    by (simp add: n isFinite_def samplePlatform_def overwrite_def)
qed

text \<open>
  A rotation with one non-finite component, \<open>(NaN, 1, 0, 0)\<close>, is written as
  \<open>(0, 1, 0, 0)\<close>, not as the identity.
\<close>

theorem C7_partial_nan_counterexample:
  "writtenRotation (NQuat NaN (Finite 1) (Finite 0) (Finite 0))
     = NQuat (Finite 0) (Finite 1) (Finite 0) (Finite 0)
   \<and> writtenRotation (NQuat NaN (Finite 1) (Finite 0) (Finite 0))
     \<noteq> NQuat (Finite 0) (Finite 0) (Finite 0) (Finite 1)"
  by (simp add: writtenRotation_def isFinite_def)


















section \<open>Properties of the string property reader\<close>

lemma findIndex_takeWhile:
  "take (case findIndex P xs of Some i \<Rightarrow> i | None \<Rightarrow> length xs) xs = takeWhile (\<lambda>x. \<not> P x) xs"
  by (induction xs) (auto split: option.splits)

lemma readArrayAsString_prefix:
  "fst (readArrayAsString decode data len)
     = decode (takeWhile (\<lambda>b. b \<noteq> 0) (take len (drop (br_offset data) (br_binary data))))"
  by (simp add: readArrayAsString_def readUint8Array_def Let_def findIndex_takeWhile)

lemma decoded_bytes_no_NUL:
  "0 \<notin> set (takeWhile (\<lambda>b. b \<noteq> 0) bs)"
  by (auto dest: set_takeWhileD)

lemma readUint32_sample:
  "readUint32 \<lparr>br_binary = qualifiedNameProperty, br_offset = 1\<rparr>
     = Inr (4, \<lparr>br_binary = qualifiedNameProperty, br_offset = 5\<rparr>)"
  by (simp add: readUint32_def qualifiedNameProperty_def uint32le_def)

lemma char_of_65: "char_of (65::nat) = CHR ''A''"
  by code_simp

lemma readArrayAsString_sample:
  "readArrayAsString asciiDecode \<lparr>br_binary = qualifiedNameProperty, br_offset = 5\<rparr> 4
     = (''A'', \<lparr>br_binary = qualifiedNameProperty, br_offset = 9\<rparr>)"
  by (simp add: readArrayAsString_def readUint8Array_def qualifiedNameProperty_def Let_def
      asciiDecode_def char_of_65)

text \<open>
  Claim C9 on the code.  The string property with the content \<open>A\<close>, \<open>00\<close>, \<open>01\<close>, \<open>B\<close>
  is decoded to \<open>A\<close>: \<^verbatim>\<open>readArrayAsString\<close> cuts the bytes at the first NUL byte before
  decoding, so the sentinel never reaches the swap, which would have given \<open>B::A\<close>.
\<close>

theorem C9_sentinel_cut_off:
  "readPropertyS asciiDecode \<lparr>br_binary = qualifiedNameProperty, br_offset = 1\<rparr>
     = Inr (''A'', \<lparr>br_binary = qualifiedNameProperty, br_offset = 9\<rparr>)
   \<and> joinWith ''::'' (rev (splitSentinel [] [CHR ''A'', CHR 0x00, CHR 0x01, CHR ''B''])) = ''B::A''"
  using readUint32_sample readArrayAsString_sample
  by (simp add: readPropertyS_def)

end
